theory Spec2Isabelle
  imports Complex_Main
begin

section \<open>Conventions of the embedding\<close>

text \<open>
  The Go sources are embedded shallowly. A \<^verbatim>\<open>float64\<close> is a \<^typ>\<open>real\<close>; there is no
  NaN and no infinity. The ensemble combiner and the position size of the trading coordinator
  take a discrete decision on a rounded value, so their arithmetic is that of binary64: every
  operation is rounded to nearest, ties to even, by \<open>round64\<close> below. In the other algorithms
  the arithmetic is exact. A Go \<^verbatim>\<open>int\<close> is an \<^typ>\<open>int\<close>
  (no overflow), a slice is a list, a \<^verbatim>\<open>map[string]T\<close> is a partial function, and a
  \<^verbatim>\<open>time.Time\<close> is an integer number of nanoseconds. A function that returns
  \<^verbatim>\<open>(T, error)\<close> returns a sum with the error on the left; a run-time panic is the error \<open>Panic\<close>.
  Error messages keep the constant text of the source; the formatted arguments are left out.
  The \<^verbatim>\<open>Explanation\<close> text of a result, the log output and the mutex are not modelled.
\<close>

datatype error = Failure string | Panic string

type_synonym time = int

text \<open>The conversion \<^verbatim>\<open>int(x)\<close> of a \<^verbatim>\<open>float64\<close> truncates toward zero.\<close>

definition go_int :: "real \<Rightarrow> int" where
  "go_int x = (if x \<ge> 0 then \<lfloor>x\<rfloor> else \<lceil>x\<rceil>)"

subsection \<open>Binary64 arithmetic\<close>

text \<open>The integer part of the binary logarithm of a positive natural number.\<close>

fun ilog2 :: "nat \<Rightarrow> nat" where
  "ilog2 n = (if n < 2 then 0 else Suc (ilog2 (n div 2)))"

declare ilog2.simps [simp del]

text \<open>
  The binary exponent of a non-zero real \<open>x\<close>: the integer \<open>e\<close> with \<open>2^e \<le> |x| < 2^(e+1)\<close>.
\<close>

definition expo :: "real \<Rightarrow> int" where
  "expo x =
     (if \<bar>x\<bar> \<ge> 1 then int (ilog2 (nat \<lfloor>\<bar>x\<bar>\<rfloor>))
      else (let k = ilog2 (nat \<lfloor>1 / \<bar>x\<bar>\<rfloor>)
            in if \<bar>x\<bar> * 2 ^ k = 1 then - int k else - int k - 1))"

definition pow2 :: "int \<Rightarrow> real" where
  "pow2 e = (if e \<ge> 0 then 2 ^ nat e else 1 / 2 ^ nat (- e))"

text \<open>Rounding to the nearest integer, a tie to the even one.\<close>

definition rne :: "real \<Rightarrow> int" where
  "rne m =
     (let f = \<lfloor>m\<rfloor>; r = m - real_of_int f
      in if r < 1 / 2 then f else if r > 1 / 2 then f + 1
         else if even f then f else f + 1)"

text \<open>
  The binary64 value nearest to a real, ties to even: 53 significant bits, and below
  \<open>2^(-1022)\<close> the fixed spacing \<open>2^(-1074)\<close> of the subnormal numbers. A result of
  magnitude \<open>2^1024\<close> or more is an infinity in binary64; it has no counterpart here, and
  the properties proved of rounded arithmetic state the range in which they hold
  (\<open>finite64\<close>). The sign of a zero is not kept.
\<close>

definition round64 :: "real \<Rightarrow> real" where
  "round64 x =
     (if x = 0 then 0
      else (let q = max (expo x - 52) (- 1074)
            in real_of_int (rne (x / pow2 q)) * pow2 q))"

definition finite64 :: "real \<Rightarrow> bool" where
  "finite64 x = (\<bar>x\<bar> < 2 ^ 1024)"

text \<open>The four operations of \<^verbatim>\<open>float64\<close>: the exact result, rounded.\<close>

definition fadd :: "real \<Rightarrow> real \<Rightarrow> real" where "fadd x y = round64 (x + y)"
definition fsub :: "real \<Rightarrow> real \<Rightarrow> real" where "fsub x y = round64 (x - y)"
definition fmul :: "real \<Rightarrow> real \<Rightarrow> real" where "fmul x y = round64 (x * y)"
definition fdiv :: "real \<Rightarrow> real \<Rightarrow> real" where "fdiv x y = round64 (x / y)"

text \<open>
  \<^verbatim>\<open>int(x)\<close> has type \<^verbatim>\<open>int\<close> of 64 bits: outside this range the result of the
  conversion depends on the implementation.
\<close>

definition int64_range :: "real \<Rightarrow> bool" where
  "int64_range x = (- (2 ^ 63) \<le> x \<and> x < 2 ^ 63)"

section \<open>Fractional differentiation: \<^verbatim>\<open>GetWeights\<close>\<close>



section \<open>Triple barrier labelling: \<^verbatim>\<open>ApplyTripleBarrier\<close>\<close>

type_synonym BarrierType = string
type_synonym BarrierLabel = int

definition BarrierTypeUpper :: BarrierType where "BarrierTypeUpper = ''upper''"
definition BarrierTypeLower :: BarrierType where "BarrierTypeLower = ''lower''"
definition BarrierTypeTime :: BarrierType where "BarrierTypeTime = ''time''"

definition BarrierLabelSell :: BarrierLabel where "BarrierLabelSell = - 1"
definition BarrierLabelHold :: BarrierLabel where "BarrierLabelHold = 0"
definition BarrierLabelBuy :: BarrierLabel where "BarrierLabelBuy = 1"

record BarrierResult =
  Label :: BarrierLabel
  ExitTime :: time
  ExitPrice :: real
  BarrierHit :: BarrierType
  EntryTime :: time
  EntryPrice :: real

record TripleBarrierConfig =
  ProfitTaking :: real
  StopLoss :: real
  TimeHorizon :: int
  VolatilityLookback :: int

text \<open>
  The inner loop \<^verbatim>\<open>for j := i + 1; j <= timeBarrierIdx; j++\<close>. Its state is
  \<open>(hitBarrier, exitIdx, label)\<close>; the two barrier branches end in \<^verbatim>\<open>break\<close>, the time
  branch assigns and lets the loop run out.
\<close>

function barrier_scan ::
  "real list \<Rightarrow> real \<Rightarrow> real \<Rightarrow> real \<Rightarrow> int \<Rightarrow> int \<Rightarrow>
   BarrierType \<times> int \<times> BarrierLabel \<Rightarrow> BarrierType \<times> int \<times> BarrierLabel" where
  "barrier_scan prices upperBarrier lowerBarrier entryPrice timeBarrierIdx j st =
     (if j \<le> timeBarrierIdx then
        (let currentPrice = prices ! nat j; label = snd (snd st) in
         if currentPrice \<ge> upperBarrier then
           (BarrierTypeUpper, j,
            if label = BarrierLabelBuy then BarrierLabelBuy else BarrierLabelSell)
         else if currentPrice \<le> lowerBarrier then
           (BarrierTypeLower, j,
            if label = BarrierLabelBuy then BarrierLabelSell else BarrierLabelBuy)
         else barrier_scan prices upperBarrier lowerBarrier entryPrice timeBarrierIdx (j + 1)
           (if j = timeBarrierIdx then
              (BarrierTypeTime, j,
               if currentPrice > entryPrice then BarrierLabelBuy
               else if currentPrice < entryPrice then BarrierLabelSell
               else BarrierLabelHold)
            else st))
      else st)"
  by pat_completeness auto
termination
  by (relation "measure (\<lambda>(prices, u, l, e, t, j, st). nat (t + 1 - j))") auto

text \<open>
  The body of the outer loop at entry index \<open>i\<close>. The zero values of the Go variables are
  the empty barrier tag, exit index 0 and trend 0.
\<close>

definition barrier_at ::
  "real list \<Rightarrow> time list \<Rightarrow> real \<Rightarrow> TripleBarrierConfig \<Rightarrow> nat \<Rightarrow> BarrierResult" where
  "barrier_at prices tms volatility config i =
     (let entryPrice = prices ! i;
          entryTime = tms ! i;
          upperBarrier = entryPrice * (1 + ProfitTaking config * volatility);
          lowerBarrier = entryPrice * (1 - StopLoss config * volatility);
          timeBarrierIdx = min (int i + TimeHorizon config) (int (length prices) - 1);
          trend = (if i > 0 then prices ! i - prices ! (i - 1) else 0);
          label = (if trend > 0 then BarrierLabelBuy
                   else if trend < 0 then BarrierLabelSell
                   else BarrierLabelHold);
          (hitBarrier, exitIdx, label') =
             barrier_scan prices upperBarrier lowerBarrier entryPrice timeBarrierIdx (int i + 1)
               ([], 0, label)
      in \<lparr>Label = label', ExitTime = tms ! nat exitIdx, ExitPrice = prices ! nat exitIdx,
          BarrierHit = hitBarrier, EntryTime = entryTime, EntryPrice = entryPrice\<rparr>)"

definition ApplyTripleBarrier ::
  "real list \<Rightarrow> time list \<Rightarrow> real \<Rightarrow> TripleBarrierConfig \<Rightarrow> error + BarrierResult list" where
  "ApplyTripleBarrier prices tms volatility config =
     (if length prices < 2 then Inl (Failure ''need at least 2 price points'')
      else if length prices \<noteq> length tms then
        Inl (Failure ''prices and times must have the same length'')
      else if volatility \<le> 0 then Inl (Failure ''volatility must be positive'')
      else Inr (map (barrier_at prices tms volatility config) [0..<length prices - 1]))"

text \<open>Daily timestamps \<open>0, 1, \<dots>\<close> days, in nanoseconds.\<close>

definition day_ns :: int where
  "day_ns = 86400000000000"

section \<open>The algorithm contract\<close>

text \<open>
  Modelled from the spec: the declaration of \<^verbatim>\<open>types.MarketData\<close> is not among the
  sources. The spec gives a market-data snapshot a price, a 24h high, a 24h low, a 24h
  volume and a 24h change percent; the algorithms read \<^verbatim>\<open>Price\<close>, \<^verbatim>\<open>High24h\<close>,
  \<^verbatim>\<open>Low24h\<close> and \<^verbatim>\<open>Volume24h\<close>.
\<close>

record MarketData =
  Symbol :: string
  Price :: real
  High24h :: real
  Low24h :: real
  Volume24h :: real
  Change24h :: real

record AlgorithmConfig =
  RiskAversion :: real
  MaxPositionWeight :: real
  MinPositionWeight :: real
  TargetReturn :: real
  HistoricalDays :: int
  AdditionalParams :: "string \<rightharpoonup> real"

text \<open>The zero value \<^verbatim>\<open>AlgorithmConfig{}\<close>: a nil map has no key.\<close>

definition AlgorithmConfig_zero :: AlgorithmConfig where
  "AlgorithmConfig_zero =
     \<lparr>RiskAversion = 0, MaxPositionWeight = 0, MinPositionWeight = 0, TargetReturn = 0,
      HistoricalDays = 0, AdditionalParams = Map.empty\<rparr>"

text \<open>
  \<^verbatim>\<open>AlgorithmResult\<close>, without the \<^verbatim>\<open>Weights\<close> map (no algorithm sets it) and without
  the explanation text.
\<close>

record AlgorithmResult =
  Signal :: string
  OrderType :: string
  LimitPrice :: "real option"
  Confidence :: real

definition SignalBuy :: string where "SignalBuy = ''buy''"
definition SignalSell :: string where "SignalSell = ''sell''"
definition SignalHold :: string where "SignalHold = ''hold''"
definition SignalClose :: string where "SignalClose = ''close''"

text \<open>\<^verbatim>\<open>BaseAlgorithm.Configure\<close> stores the configuration and never fails.\<close>

definition BaseAlgorithm_Configure :: "AlgorithmConfig \<Rightarrow> AlgorithmConfig \<Rightarrow> error option \<times> AlgorithmConfig" where
  "BaseAlgorithm_Configure b_config config = (None, config)"

section \<open>Statistics helpers\<close>

definition mean :: "real list \<Rightarrow> real" where
  "mean values = (if length values = 0 then 0 else sum_list values / real (length values))"

definition standardDeviation :: "real list \<Rightarrow> real" where
  "standardDeviation values =
     (if length values < 2 then 0
      else (let m = mean values;
                variance = sum_list (map (\<lambda>v. (v - m)\<^sup>2) values)
            in sqrt (variance / real (length values - 1))))"

text \<open>Simple returns \<^verbatim>\<open>returns[i-1] = (prices[i] - prices[i-1]) / prices[i-1]\<close>.\<close>

definition simple_returns :: "real list \<Rightarrow> real list" where
  "simple_returns prices =
     map (\<lambda>i. (prices ! i - prices ! (i - 1)) / prices ! (i - 1)) [1..<length prices]"

section \<open>Mean-variance optimisation, single asset: \<^verbatim>\<open>MVOAlgorithm.Process\<close>\<close>

text \<open>
  The algorithm has no \<^verbatim>\<open>Configure\<close> of its own; \<open>config\<close> is the configuration that
  \<^verbatim>\<open>BaseAlgorithm.Configure\<close> stored. With no historical data
  \<^verbatim>\<open>make([]float64, len(prices)-1)\<close> panics.
\<close>

definition MVO_Process ::
  "AlgorithmConfig \<Rightarrow> string \<Rightarrow> MarketData option \<Rightarrow> MarketData list \<Rightarrow> error + AlgorithmResult" where
  "MVO_Process config symbol data historicalData =
     (case data of
        None \<Rightarrow> Inl (Failure ''market data is nil'')
      | Some d \<Rightarrow>
          if historicalData = [] then Inl (Panic ''makeslice: len out of range'')
          else
            (let prices = map Price historicalData;
                 returns = simple_returns prices
             in if length returns > 0 then
                  (let expectedReturn = mean returns;
                       risk = standardDeviation returns;
                       sharpeRatio = (if risk > 0 then expectedReturn / risk else 0);
                       riskAversion = (case AdditionalParams config ''risk_aversion'' of
                                         Some val \<Rightarrow> val | None \<Rightarrow> 2);
                       minSharpe = (case AdditionalParams config ''min_sharpe'' of
                                      Some val \<Rightarrow> val | None \<Rightarrow> 1 / 2);
                       utility = expectedReturn - (riskAversion * risk * risk / 2)
                   in if sharpeRatio > minSharpe \<and> utility > 0 then
                        Inr \<lparr>Signal = SignalBuy, OrderType = ''limit'',
                             LimitPrice = Some (Price d * (99 / 100)),
                             Confidence = 65 / 100 + min (25 / 100) (sharpeRatio / 4)\<rparr>
                      else if sharpeRatio > 0 \<and> utility > - (1 / 1000) then
                        Inr \<lparr>Signal = SignalHold, OrderType = ''market'', LimitPrice = None,
                             Confidence = 6 / 10\<rparr>
                      else
                        Inr \<lparr>Signal = SignalSell, OrderType = ''market'', LimitPrice = None,
                             Confidence = 7 / 10 - min (2 / 10) sharpeRatio\<rparr>)
                else
                  Inr \<lparr>Signal = SignalHold, OrderType = ''market'', LimitPrice = None,
                       Confidence = 1 / 2\<rparr>))"

section \<open>The ensemble combiner: \<^verbatim>\<open>AlgorithmManager.combineResults\<close>\<close>

text \<open>
  The first loop: confidences per signal tag, the buy and sell totals, and the total. The
  state is \<open>(signalWeights, totalBuyWeight, totalSellWeight, totalConfidence)\<close>; a missing
  key of a Go map reads as 0. Every \<^verbatim>\<open>+=\<close> is a rounded addition.
\<close>

definition tally_step ::
  "AlgorithmResult \<Rightarrow> (string \<rightharpoonup> real) \<times> real \<times> real \<times> real \<Rightarrow>
   (string \<rightharpoonup> real) \<times> real \<times> real \<times> real" where
  "tally_step result st =
     (case st of (signalWeights, totalBuyWeight, totalSellWeight, totalConfidence) \<Rightarrow>
        (signalWeights(Signal result \<mapsto>
            fadd (case signalWeights (Signal result) of None \<Rightarrow> 0 | Some w \<Rightarrow> w)
              (Confidence result)),
         (if Signal result = SignalBuy then fadd totalBuyWeight (Confidence result)
          else totalBuyWeight),
         (if Signal result = SignalBuy then totalSellWeight
          else if Signal result = SignalSell then fadd totalSellWeight (Confidence result)
          else totalSellWeight),
         fadd totalConfidence (Confidence result)))"

definition tally ::
  "AlgorithmResult list \<Rightarrow> (string \<rightharpoonup> real) \<times> real \<times> real \<times> real" where
  "tally results = fold tally_step results (Map.empty, 0, 0, 0)"

definition normalize_tally :: "(string \<rightharpoonup> real) \<Rightarrow> real \<Rightarrow> (string \<rightharpoonup> real)" where
  "normalize_tally signalWeights totalConfidence =
     (if totalConfidence > 0 then
        (\<lambda>signal. map_option (\<lambda>w. fdiv w totalConfidence) (signalWeights signal))
      else signalWeights)"

text \<open>Three results of the first loop, by name.\<close>

definition signalWeights_of :: "AlgorithmResult list \<Rightarrow> (string \<rightharpoonup> real)" where
  "signalWeights_of results = fst (tally results)"
definition totalBuyWeight_of :: "AlgorithmResult list \<Rightarrow> real" where
  "totalBuyWeight_of results = fst (snd (tally results))"
definition totalSellWeight_of :: "AlgorithmResult list \<Rightarrow> real" where
  "totalSellWeight_of results = fst (snd (snd (tally results)))"

text \<open>
  The second loop, \<^verbatim>\<open>for signal, weight := range signalWeights\<close>, visits the keys in an
  order Go leaves unspecified. The order is the parameter \<open>order\<close>: a list of the keys of
  the map. The state is \<open>(combinedSignal, maxWeight)\<close>, initially the empty string and 0.
\<close>

definition pick_max ::
  "(string \<rightharpoonup> real) \<Rightarrow> string \<Rightarrow> string \<times> real \<Rightarrow> string \<times> real" where
  "pick_max signalWeights signal st =
     (case signalWeights signal of
        None \<Rightarrow> st
      | Some weight \<Rightarrow> if weight > snd st then (signal, weight) else st)"

definition winner :: "string list \<Rightarrow> AlgorithmResult list \<Rightarrow> string \<times> real" where
  "winner order results =
     (case tally results of (signalWeights, totalBuyWeight, totalSellWeight, totalConfidence) \<Rightarrow>
        fold (pick_max (normalize_tally signalWeights totalConfidence)) order ([], 0))"

text \<open>
  The limit prices of the buy results that carry one; \<^verbatim>\<open>totalPrice\<close> adds them up from 0
  with rounded additions.
\<close>

definition buy_limit_prices :: "AlgorithmResult list \<Rightarrow> real list" where
  "buy_limit_prices results =
     map (\<lambda>r. the (LimitPrice r))
       (filter (\<lambda>r. Signal r = SignalBuy \<and> LimitPrice r \<noteq> None) results)"

text \<open>
  The constants \<^verbatim>\<open>0.2\<close> and \<^verbatim>\<open>0.7\<close> of the source are the binary64 values nearest to
  \<open>1/5\<close> and \<open>7/10\<close>.
\<close>

definition combineResults ::
  "string list \<Rightarrow> string \<Rightarrow> AlgorithmResult list \<Rightarrow> error + AlgorithmResult" where
  "combineResults order symbol results =
     (if length results = 0 then Inl (Failure ''no results to combine'')
      else if length results = 1 then Inr (results ! 0)
      else
        (case tally results of (signalWeights, totalBuyWeight, totalSellWeight, totalConfidence) \<Rightarrow>
         case winner order results of (combinedSignal0, maxWeight0) \<Rightarrow>
           (let override = (\<bar>fsub totalBuyWeight totalSellWeight\<bar>
                              < fmul (round64 (2 / 10)) totalConfidence
                            \<and> (combinedSignal0 = SignalBuy \<or> combinedSignal0 = SignalSell));
                combinedSignal = (if override then SignalHold else combinedSignal0);
                maxWeight = (if override then fdiv (fadd totalBuyWeight totalSellWeight) 2
                             else maxWeight0);
                useLimit = (combinedSignal = SignalBuy \<and> maxWeight > round64 (7 / 10));
                prices = buy_limit_prices results
            in Inr \<lparr>Signal = combinedSignal,
                    OrderType = (if useLimit then ''limit'' else ''market''),
                    LimitPrice = (if useLimit \<and> length prices > 0
                                  then Some (fdiv (foldl fadd 0 prices) (real (length prices)))
                                  else None),
                    Confidence = maxWeight\<rparr>)))"

section \<open>The trading coordinator: risk parameters and the trade gate\<close>

text \<open>
  A value of type \<^verbatim>\<open>interface{}\<close> in the risk-parameter map: a \<^verbatim>\<open>float64\<close>, an
  \<^verbatim>\<open>int\<close>, or a value of any other dynamic type (a string, a bool, nil, \<dots>).
\<close>

datatype dyn = DFloat64 real | DInt int | DOther string

record PositionData =
  pos_Symbol :: string
  Quantity :: real
  AvgPrice :: real
  MarketVal :: real
  Profit :: real
  Return :: real

record PortfolioData =
  Balance :: real
  Positions :: "string \<rightharpoonup> PositionData"
  TotalValue :: real
  DailyPnL :: real
  DailyReturn :: real

record TradeSignal =
  sig_Symbol :: string
  sig_Signal :: string
  sig_OrderType :: string
  sig_LimitPrice :: "real option"
  sig_Timestamp :: time
  sig_Confidence :: "real option"

record TradingAlgorithm =
  marketData :: "string \<rightharpoonup> MarketData"
  signals :: "string \<rightharpoonup> TradeSignal"
  portfolio :: PortfolioData
  riskParameters :: "string \<rightharpoonup> dyn"
  tradingEnabled :: bool

text \<open>The state that \<^verbatim>\<open>NewTradingAlgorithm\<close> builds.\<close>

definition NewTradingAlgorithm :: TradingAlgorithm where
  "NewTradingAlgorithm =
     \<lparr>marketData = Map.empty, signals = Map.empty,
      portfolio = \<lparr>Balance = 0, Positions = Map.empty, TotalValue = 0, DailyPnL = 0,
                   DailyReturn = 0\<rparr>,
      riskParameters = [''max_position_size_percent'' \<mapsto> DFloat64 5,
                        ''max_daily_drawdown'' \<mapsto> DFloat64 10,
                        ''stop_loss_percent'' \<mapsto> DFloat64 5,
                        ''take_profit_percent'' \<mapsto> DFloat64 15,
                        ''max_trades_per_day'' \<mapsto> DInt 10],
      tradingEnabled = False\<rparr>"

text \<open>
  One pass of the validation \<^verbatim>\<open>switch\<close> of \<^verbatim>\<open>UpdateRiskParameters\<close> on a key and its
  value: an error, or the value that the loop leaves in \<^verbatim>\<open>params[k]\<close>.
\<close>

definition validate_param :: "string \<Rightarrow> dyn \<Rightarrow> error + dyn" where
  "validate_param k v =
     (if k = ''max_position_size_percent'' \<or> k = ''max_daily_drawdown''
         \<or> k = ''stop_loss_percent'' \<or> k = ''take_profit_percent'' then
        (case v of
           DFloat64 val \<Rightarrow> if val \<le> 0 then Inl (Failure ''parameter must be positive'')
                          else Inr (DFloat64 val)
         | DInt val \<Rightarrow> if val \<le> 0 then Inl (Failure ''parameter must be positive'')
                      else Inr (DFloat64 (real_of_int val))
         | DOther t \<Rightarrow> Inl (Failure ''parameter must be numeric''))
      else if k = ''max_trades_per_day'' then
        (case v of
           DFloat64 val \<Rightarrow>
             if val \<le> 0 \<or> real_of_int \<lfloor>val\<rfloor> \<noteq> val
             then Inl (Failure ''parameter must be a positive integer'')
             else Inr (DInt (go_int val))
         | DInt val \<Rightarrow> if val \<le> 0 then Inl (Failure ''parameter must be positive'')
                      else Inr (DInt val)
         | DOther t \<Rightarrow> Inl (Failure ''parameter must be an integer''))
      else Inl (Failure ''unknown parameter''))"

text \<open>
  The validation loop over the request map. The list is the map in the order in which
  \<^verbatim>\<open>range\<close> visits it; the loop returns at the first entry that fails.
\<close>

fun validate_params :: "(string \<times> dyn) list \<Rightarrow> error + (string \<times> dyn) list" where
  "validate_params [] = Inr []"
| "validate_params ((k, v) # rest) =
     (case validate_param k v of
        Inl e \<Rightarrow> Inl e
      | Inr v' \<Rightarrow>
          (case validate_params rest of
             Inl e \<Rightarrow> Inl e
           | Inr rest' \<Rightarrow> Inr ((k, v') # rest')))"

text \<open>The second loop: \<^verbatim>\<open>a.riskParameters[k] = v\<close> for every entry.\<close>

definition store_params :: "(string \<times> dyn) list \<Rightarrow> (string \<rightharpoonup> dyn) \<Rightarrow> (string \<rightharpoonup> dyn)" where
  "store_params params stored = fold (\<lambda>(k, v) m. m(k \<mapsto> v)) params stored"

definition UpdateRiskParameters ::
  "TradingAlgorithm \<Rightarrow> (string \<times> dyn) list \<Rightarrow> error option \<times> TradingAlgorithm" where
  "UpdateRiskParameters a params =
     (case validate_params params of
        Inl e \<Rightarrow> (Some e, a)
      | Inr params' \<Rightarrow>
          (None, a\<lparr>riskParameters := store_params params' (riskParameters a)\<rparr>))"

text \<open>
  \<^verbatim>\<open>qty := float64(int(positionValue / currentPrice))\<close>: the quotient is rounded to
  binary64 and then truncated toward zero. The integer part of a binary64 value within the
  range of \<^verbatim>\<open>int\<close> is a binary64 value, so the conversion back is exact.
\<close>

definition calculatePositionSize :: "real \<Rightarrow> real \<Rightarrow> bool \<Rightarrow> real" where
  "calculatePositionSize positionValue currentPrice isBuy =
     (let currentPrice' = (if currentPrice \<le> 0 then 1 else currentPrice);
          qty = real_of_int (go_int (fdiv positionValue currentPrice'))
      in if \<not> isBuy then - qty else qty)"

text \<open>
  The order is only logged by the source (the broker call is commented out); the model
  returns what the log line \<^verbatim>\<open>Order details\<close> reports.
\<close>

record OrderDetails =
  ord_symbol :: string
  ord_side :: string
  ord_qty :: real
  ord_type :: string
  ord_limitPrice :: real

datatype trade_outcome = NoAction | OrderLogged OrderDetails

text \<open>
  \<^verbatim>\<open>riskParams["max_position_size_percent"].(float64)\<close> with the default 5 when the
  entry is missing or is not a \<^verbatim>\<open>float64\<close>.
\<close>

definition maxPosSize :: "(string \<rightharpoonup> dyn) \<Rightarrow> real" where
  "maxPosSize riskParams =
     (case riskParams ''max_position_size_percent'' of
        Some (DFloat64 val) \<Rightarrow> val
      | _ \<Rightarrow> 5)"

definition limit_or_zero :: "real option \<Rightarrow> real" where
  "limit_or_zero lp = (case lp of Some x \<Rightarrow> x | None \<Rightarrow> 0)"

definition ExecuteTrade :: "TradingAlgorithm \<Rightarrow> TradeSignal option \<Rightarrow> error + trade_outcome" where
  "ExecuteTrade a signal =
     (case signal of
        None \<Rightarrow> Inl (Failure ''signal is nil'')
      | Some sg \<Rightarrow>
          (case marketData a (sig_Symbol sg) of
             None \<Rightarrow> Inl (Failure ''market data not found for symbol'')
           | Some md \<Rightarrow>
               (let position = Positions (portfolio a) (sig_Symbol sg);
                    hasLong = (case position of Some p \<Rightarrow> Quantity p > 0 | None \<Rightarrow> False);
                    positionValue = fmul (TotalValue (portfolio a))
                                      (fdiv (maxPosSize (riskParameters a)) 100);
                    order = (\<lambda>side qty.
                       Inr (OrderLogged \<lparr>ord_symbol = sig_Symbol sg, ord_side = side, ord_qty = qty,
                              ord_type = sig_OrderType sg,
                              ord_limitPrice = limit_or_zero (sig_LimitPrice sg)\<rparr>))
                in if sig_Signal sg = SignalBuy then
                     (if hasLong then Inr NoAction
                      else order ''buy'' (calculatePositionSize positionValue (Price md) True))
                   else if sig_Signal sg = SignalSell then
                     (if hasLong then order ''sell'' (Quantity (the position))
                      else order ''sell'' (calculatePositionSize positionValue (Price md) False))
                   else if sig_Signal sg = SignalClose then
                     (case position of
                        None \<Rightarrow> Inr NoAction
                      | Some p \<Rightarrow>
                          order (if Quantity p > 0 then ''sell'' else ''buy'') \<bar>Quantity p\<bar>)
                   else if sig_Signal sg = SignalHold then Inr NoAction
                   else Inl (Failure ''unknown signal type''))))"

section \<open>Purged cross-validation: \<^verbatim>\<open>purgedKFold\<close> and \<^verbatim>\<open>PurgedKFold\<close>\<close>

record CVFold =
  TrainIndices :: "nat list"
  TestIndices :: "nat list"
  TrainTimes :: "time list"
  TestTimes :: "time list"

record PurgedCVConfig =
  NumFolds :: int
  EmbargoPct :: real
  TestSize :: real

record PurgedCVAlgorithm =
  pcv_base :: AlgorithmConfig
  pcv_config :: PurgedCVConfig
  numFolds :: int
  embargoPct :: real
  testSize :: real
  syncTimes :: "time list"
  eventTimes :: "time list"

definition PurgedCV_new :: PurgedCVAlgorithm where
  "PurgedCV_new =
     \<lparr>pcv_base = AlgorithmConfig_zero,
      pcv_config = \<lparr>NumFolds = 0, EmbargoPct = 0, TestSize = 0\<rparr>,
      numFolds = 0, embargoPct = 0, testSize = 0, syncTimes = [], eventTimes = []\<rparr>"

text \<open>The remainder \<^verbatim>\<open>a % b\<close> of Go has the sign of the dividend.\<close>

definition go_rem :: "int \<Rightarrow> int \<Rightarrow> int" where
  "go_rem a b = sgn a * (\<bar>a\<bar> mod \<bar>b\<bar>)"

text \<open>
  \<^verbatim>\<open>diff.Hours()\<close> is the duration in nanoseconds divided by the nanoseconds of an hour.
\<close>

definition areTimesClose :: "time \<Rightarrow> time \<Rightarrow> int \<Rightarrow> bool" where
  "areTimesClose t1 t2 days =
     (\<bar>real_of_int (t1 - t2) / 3600000000000\<bar> < real_of_int days * 24)"

definition getTimesByIndices :: "PurgedCVAlgorithm \<Rightarrow> nat list \<Rightarrow> time list" where
  "getTimesByIndices p indices =
     map (\<lambda>idx. if idx < length (syncTimes p) then syncTimes p ! idx else 0) indices"

definition purgeTrainSamples :: "PurgedCVAlgorithm \<Rightarrow> nat list \<Rightarrow> nat list \<Rightarrow> nat list" where
  "purgeTrainSamples p trainIndices testIndices =
     (if length (eventTimes p) = 0 then trainIndices
      else (let testTimes = map (\<lambda>idx. syncTimes p ! idx) testIndices
            in filter (\<lambda>trainIdx.
                  \<not> list_ex (\<lambda>testTime. areTimesClose (syncTimes p ! trainIdx) testTime 1) testTimes)
                 trainIndices))"

definition embargoTrainSamples :: "PurgedCVAlgorithm \<Rightarrow> nat list \<Rightarrow> nat list \<Rightarrow> nat list" where
  "embargoTrainSamples p trainIndices testIndices =
     (if embargoPct p \<le> 0 then trainIndices
      else (let sortedTest = sort testIndices;
                embargoSize0 = go_int (real_of_int \<lceil>real (length (syncTimes p)) * embargoPct p\<rceil>);
                embargoSize = (if embargoSize0 \<le> 0 then 1 else embargoSize0);
                embargoZones = concat (map (\<lambda>testIdx.
                    filter (\<lambda>embargoIdx. embargoIdx < length (syncTimes p))
                      (map (\<lambda>i. testIdx + i) [1..<nat embargoSize + 1])) sortedTest)
            in filter (\<lambda>trainIdx. trainIdx \<notin> set embargoZones) trainIndices))"

text \<open>
  The test indices of fold \<open>i\<close>: \<open>testSize\<close> consecutive indices from
  \<open>(i \<sqdot> testSize) % numSamples\<close>, wrapping around the end of the range, then sorted. A slice
  expression with a negative bound or with bounds in the wrong order panics.
\<close>

definition test_shard :: "nat \<Rightarrow> int \<Rightarrow> int \<Rightarrow> error + nat list" where
  "test_shard numSamples testSz i =
     (let start = go_rem (i * testSz) (int numSamples);
          end = start + testSz
      in if end > int numSamples then
           (if start < 0 \<or> end - int numSamples > int numSamples
            then Inl (Panic ''slice bounds out of range'')
            else Inr (sort ([nat start..<numSamples] @ [0..<nat (end - int numSamples)])))
         else
           (if start < 0 \<or> end < start then Inl (Panic ''slice bounds out of range'')
            else Inr (sort [nat start..<nat end])))"

text \<open>Step 2 and step 3 of \<^verbatim>\<open>purgedKFold\<close> for one fold.\<close>

definition make_fold :: "PurgedCVAlgorithm \<Rightarrow> nat list \<Rightarrow> CVFold" where
  "make_fold p testIdx =
     (let numSamples = length (syncTimes p);
          trainIndices0 = filter (\<lambda>j. j \<notin> set testIdx) [0..<numSamples];
          trainIndices =
            (if length (eventTimes p) > 0 then
               (let purged = purgeTrainSamples p trainIndices0 testIdx
                in if embargoPct p > 0 then embargoTrainSamples p purged testIdx else purged)
             else trainIndices0)
      in \<lparr>TrainIndices = trainIndices, TestIndices = testIdx,
          TrainTimes = getTimesByIndices p trainIndices,
          TestTimes = getTimesByIndices p testIdx\<rparr>)"

text \<open>The first loop: the test shards of the folds \<open>i, i + 1, \<dots>\<close> (\<open>n\<close> of them).\<close>

fun test_shards :: "nat \<Rightarrow> int \<Rightarrow> int \<Rightarrow> nat \<Rightarrow> error + nat list list" where
  "test_shards numSamples testSz i 0 = Inr []"
| "test_shards numSamples testSz i (Suc n) =
     (case test_shard numSamples testSz i of
        Inl e \<Rightarrow> Inl e
      | Inr shard \<Rightarrow>
          (case test_shards numSamples testSz (i + 1) n of
             Inl e \<Rightarrow> Inl e
           | Inr shards \<Rightarrow> Inr (shard # shards)))"

definition purgedKFold :: "PurgedCVAlgorithm \<Rightarrow> error + CVFold list" where
  "purgedKFold p =
     (if length (syncTimes p) = 0 then Inl (Failure ''no sample times provided'')
      else if numFolds p < 0 then Inl (Panic ''makeslice: len out of range'')
      else
        (let numSamples = length (syncTimes p);
             testSz = go_int (real_of_int \<lceil>real numSamples * testSize p\<rceil>)
         in case test_shards numSamples testSz 0 (nat (numFolds p)) of
              Inl e \<Rightarrow> Inl e
            | Inr testIndices \<Rightarrow> Inr (map (make_fold p) testIndices)))"

definition PurgedKFold :: "time list \<Rightarrow> int \<Rightarrow> real \<Rightarrow> error + CVFold list" where
  "PurgedKFold samples numFolds' embargoPct' =
     purgedKFold
       \<lparr>pcv_base = AlgorithmConfig_zero,
        pcv_config = \<lparr>NumFolds = 0, EmbargoPct = 0, TestSize = 0\<rparr>,
        numFolds = numFolds', embargoPct = embargoPct',
        testSize = 1 / real_of_int numFolds',
        syncTimes = samples, eventTimes = []\<rparr>"

text \<open>
  \<^verbatim>\<open>PurgedCVAlgorithm.Configure\<close>, in three stages that follow the three option blocks of
  the source; each stage returns early on an invalid value, leaving the fields assigned so far.
\<close>

definition PurgedCV_Configure_test_size ::
  "PurgedCVAlgorithm \<Rightarrow> AlgorithmConfig \<Rightarrow> error option \<times> PurgedCVAlgorithm" where
  "PurgedCV_Configure_test_size p config =
     (let finish = (\<lambda>q. (None, q\<lparr>pcv_config :=
            \<lparr>NumFolds = numFolds q, EmbargoPct = embargoPct q, TestSize = testSize q\<rparr>\<rparr>))
      in case AdditionalParams config ''test_size'' of
           Some val \<Rightarrow> if val \<le> 0 \<or> val \<ge> 1
                        then (Some (Failure ''test_size must be between 0 and 1''), p)
                        else finish (p\<lparr>testSize := val\<rparr>)
         | None \<Rightarrow> finish p)"

definition PurgedCV_Configure_embargo ::
  "PurgedCVAlgorithm \<Rightarrow> AlgorithmConfig \<Rightarrow> error option \<times> PurgedCVAlgorithm" where
  "PurgedCV_Configure_embargo p config =
     (case AdditionalParams config ''embargo_pct'' of
        Some val \<Rightarrow> if val < 0 \<or> val > 1 / 2
                     then (Some (Failure ''embargo_pct must be between 0 and 0.5''), p)
                     else PurgedCV_Configure_test_size (p\<lparr>embargoPct := val\<rparr>) config
      | None \<Rightarrow> PurgedCV_Configure_test_size p config)"

definition PurgedCV_Configure ::
  "PurgedCVAlgorithm \<Rightarrow> AlgorithmConfig \<Rightarrow> error option \<times> PurgedCVAlgorithm" where
  "PurgedCV_Configure p config =
     (let p1 = p\<lparr>pcv_base := config, numFolds := 5, embargoPct := 1 / 100, testSize := 3 / 10\<rparr>
      in case AdditionalParams config ''num_folds'' of
           Some val \<Rightarrow> if val < 2 then (Some (Failure ''num_folds must be at least 2''), p1)
                        else PurgedCV_Configure_embargo (p1\<lparr>numFolds := go_int val\<rparr>) config
         | None \<Rightarrow> PurgedCV_Configure_embargo p1 config)"

section \<open>The algorithm registry\<close>

type_synonym AlgorithmType = string

definition AlgorithmTypeHRP :: AlgorithmType where "AlgorithmTypeHRP = ''hrp''"
definition AlgorithmTypeMVO :: AlgorithmType where "AlgorithmTypeMVO = ''mvo''"
definition AlgorithmTypeEntropyPooling :: AlgorithmType where
  "AlgorithmTypeEntropyPooling = ''entropy_pooling''"
definition AlgorithmTypeCUSUMFilter :: AlgorithmType where
  "AlgorithmTypeCUSUMFilter = ''cusum_filter''"
definition AlgorithmTypeSequentialBootstrap :: AlgorithmType where
  "AlgorithmTypeSequentialBootstrap = ''sequential_bootstrap''"
definition AlgorithmTypeFractionalDiff :: AlgorithmType where
  "AlgorithmTypeFractionalDiff = ''fractional_diff''"
definition AlgorithmTypeTripleBarrier :: AlgorithmType where
  "AlgorithmTypeTripleBarrier = ''triple_barrier''"
definition AlgorithmTypeMetaLabeling :: AlgorithmType where
  "AlgorithmTypeMetaLabeling = ''meta_labeling''"
definition AlgorithmTypePurgedCV :: AlgorithmType where
  "AlgorithmTypePurgedCV = ''purged_cv''"
definition AlgorithmTypePositionSizing :: AlgorithmType where
  "AlgorithmTypePositionSizing = ''position_sizing''"

text \<open>
  The keys of \<^verbatim>\<open>algorithmRegistry\<close> once every \<^verbatim>\<open>init\<close> has run: the ten algorithm
  types. \<^verbatim>\<open>Create\<close> fails with \<^verbatim>\<open>unknown algorithm type\<close> on any other tag.
\<close>

definition registered :: "AlgorithmType \<Rightarrow> bool" where
  "registered algType =
     (algType = AlgorithmTypeHRP \<or> algType = AlgorithmTypeMVO
      \<or> algType = AlgorithmTypeEntropyPooling \<or> algType = AlgorithmTypeCUSUMFilter
      \<or> algType = AlgorithmTypeSequentialBootstrap \<or> algType = AlgorithmTypeFractionalDiff
      \<or> algType = AlgorithmTypeTripleBarrier \<or> algType = AlgorithmTypeMetaLabeling
      \<or> algType = AlgorithmTypePurgedCV \<or> algType = AlgorithmTypePositionSizing)"

text \<open>
  \<^verbatim>\<open>fmt.Errorf("prefix: %v", err)\<close> puts a prefix before the message of an error; a panic
  is not an error value and passes through.
\<close>

definition wrap_error :: "string \<Rightarrow> error \<Rightarrow> error" where
  "wrap_error prefix e = (case e of Failure msg \<Rightarrow> Failure (prefix @ msg) | Panic msg \<Rightarrow> Panic msg)"

text \<open>Running a list of fallible steps; the first failure is the result.\<close>

fun collect :: "(error + 'a) list \<Rightarrow> error + 'a list" where
  "collect [] = Inr []"
| "collect (x # xs) =
     (case x of
        Inl e \<Rightarrow> Inl e
      | Inr v \<Rightarrow> (case collect xs of Inl e \<Rightarrow> Inl e | Inr vs \<Rightarrow> Inr (v # vs)))"

section \<open>Sequential bootstrap\<close>

text \<open>
  The sources of nondeterminism of one \<^verbatim>\<open>Process\<close> call. The \<open>t\<close>-th call of the
  package-level random generator returns \<open>raw_int t\<close> reduced into the requested range, or
  the fractional part of \<open>raw_float t\<close>; \<open>visit_rank t\<close> ranks the keys of a Go map for the
  \<open>t\<close>-th \<^verbatim>\<open>range\<close> over it, whose order Go leaves unspecified. All three are arbitrary.
\<close>

record chance =
  raw_int :: "nat \<Rightarrow> nat"
  raw_float :: "nat \<Rightarrow> real"
  visit_rank :: "nat \<Rightarrow> nat \<Rightarrow> nat"

text \<open>\<^verbatim>\<open>rand.Intn(n)\<close> panics for \<open>n \<le> 0\<close> and returns a value in \<open>[0, n)\<close> otherwise.\<close>

definition rand_Intn :: "chance \<Rightarrow> nat \<Rightarrow> int \<Rightarrow> error + int" where
  "rand_Intn ch t n =
     (if n \<le> 0 then Inl (Panic ''invalid argument to Intn'')
      else Inr (int (raw_int ch t mod nat n)))"

text \<open>\<^verbatim>\<open>rand.Float64()\<close> returns a value in \<open>[0, 1)\<close>.\<close>

definition rand_Float64 :: "chance \<Rightarrow> nat \<Rightarrow> real" where
  "rand_Float64 ch t = frac (raw_float ch t)"

text \<open>
  A \<^verbatim>\<open>mat.Dense\<close> is the list of its rows; the matrices of this program have at least one
  row and are never nil.
\<close>

type_synonym dense = "real list list"

definition Dims :: "dense \<Rightarrow> nat \<times> nat" where
  "Dims m = (length m, if m = [] then 0 else length (hd m))"

definition getIndMatrix :: "int list \<Rightarrow> real list \<Rightarrow> error + dense" where
  "getIndMatrix barIx t1 =
     (if length barIx = 0 \<or> length t1 = 0 then
        Inl (Failure ''bar indices or t1 series cannot be empty'')
      else
        Inr (map (\<lambda>barTime. map (\<lambda>endTime. if real_of_int barTime \<le> endTime then 1 else 0) t1)
               barIx))"

definition getAvgUniqueness :: "dense \<Rightarrow> error + real list" where
  "getAvgUniqueness indM =
     (case Dims indM of (r, c) \<Rightarrow>
        if r = 0 \<or> c = 0 then Inl (Failure ''indicator matrix cannot have zero dimensions'')
        else
          (let concurrency = map (\<lambda>j. sum_list (map (\<lambda>row. row ! j) indM)) [0..<c];
               uniqueness = (\<lambda>i j.
                  (let val = indM ! i ! j
                   in if val > 0 \<and> concurrency ! j > 0 then val / concurrency ! j else 0))
           in Inr (map (\<lambda>j.
                 (let vals = filter (\<lambda>v. v > 0) (map (\<lambda>i. uniqueness i j) [0..<r])
                  in if length vals > 0 then sum_list vals / real (length vals) else 0))
               [0..<c])))"

text \<open>\<^verbatim>\<open>mat.Col\<close> panics on a column index outside the matrix.\<close>

definition selectColumns :: "dense \<Rightarrow> int list \<Rightarrow> error + dense" where
  "selectColumns m indices =
     (if list_ex (\<lambda>idx. idx < 0 \<or> idx \<ge> int (snd (Dims m))) indices then
        Inl (Panic ''column index out of range'')
      else Inr (map (\<lambda>row. map (\<lambda>idx. row ! nat idx) indices) m))"

text \<open>
  The selection loop of \<^verbatim>\<open>weightedChoice\<close>: the first item whose cumulative normalised
  weight reaches \<open>r\<close>.
\<close>

fun pick_cumulative :: "int list \<Rightarrow> real list \<Rightarrow> real \<Rightarrow> real \<Rightarrow> int option" where
  "pick_cumulative (item # items) (w # ws) r cumulative =
     (if r \<le> cumulative + w then Some item else pick_cumulative items ws r (cumulative + w))"
| "pick_cumulative items ws r cumulative = None"

text \<open>
  \<^verbatim>\<open>weightedChoice\<close> at random call \<open>t\<close>. When the weights sum to zero the normalised
  weights of the source are NaN (the weights of this program are never negative), no
  comparison succeeds and the last item is returned.
\<close>

definition weightedChoice :: "chance \<Rightarrow> nat \<Rightarrow> int list \<Rightarrow> real list \<Rightarrow> error + int" where
  "weightedChoice ch t items ws =
     (if length items = 0 \<or> length ws = 0 \<or> length items \<noteq> length ws then
        (if length items > 0 then
           (case rand_Intn ch t (int (length items)) of
              Inl e \<Rightarrow> Inl e
            | Inr k \<Rightarrow> Inr (items ! nat k))
         else Inr (- 1))
      else
        (let total = sum_list ws;
             normalizedWeights = map (\<lambda>w. w / total) ws;
             r = rand_Float64 ch t
         in if total = 0 then Inr (last items)
            else (case pick_cumulative items normalizedWeights r 0 of
                    Some item \<Rightarrow> Inr item
                  | None \<Rightarrow> Inr (last items))))"

text \<open>
  One candidate column \<open>i\<close> of the inner loop of \<^verbatim>\<open>seqBootstrap\<close>: its entry of the map
  \<^verbatim>\<open>avgUniqueness\<close>, or none when \<^verbatim>\<open>getAvgUniqueness\<close> fails (\<^verbatim>\<open>continue\<close>).
\<close>

definition candidate :: "dense \<Rightarrow> int list \<Rightarrow> int \<Rightarrow> error + (int \<times> real) option" where
  "candidate indM phi i =
     (case selectColumns indM (phi @ [i]) of
        Inl e \<Rightarrow> Inl e
      | Inr tempMatrix \<Rightarrow>
          (case getAvgUniqueness tempMatrix of
             Inl e \<Rightarrow> Inr None
           | Inr avgU \<Rightarrow> if length avgU > 0 then Inr (Some (i, last avgU)) else Inr None))"

text \<open>
  One pass of the outer loop, with \<open>len(phi) = t\<close> draws made so far: the pass makes the
  \<open>t\<close>-th random call and the \<open>t\<close>-th \<^verbatim>\<open>range\<close> over the map.
\<close>

definition seq_draw :: "chance \<Rightarrow> dense \<Rightarrow> nat \<Rightarrow> int list \<Rightarrow> error + int" where
  "seq_draw ch indM c phi =
     (case collect (map (\<lambda>i. candidate indM phi (int i)) [0..<c]) of
        Inl e \<Rightarrow> Inl e
      | Inr cands \<Rightarrow>
          (let avgUniqueness = List.map_filter id cands;
               visited = sort_key (\<lambda>entry. visit_rank ch (length phi) (nat (fst entry)))
                           avgUniqueness;
               indices = map fst visited;
               ws = map snd visited
           in if length indices = 0 then rand_Intn ch (length phi) (int c)
              else weightedChoice ch (length phi) indices ws))"

text \<open>
  \<^verbatim>\<open>for len(phi) < sLength\<close>: every pass appends one draw, so the loop makes
  \<open>sLength - len(phi)\<close> passes; \<open>n\<close> counts the passes left.
\<close>

fun seq_loop :: "chance \<Rightarrow> dense \<Rightarrow> nat \<Rightarrow> nat \<Rightarrow> int list \<Rightarrow> error + int list" where
  "seq_loop ch indM c 0 phi = Inr phi"
| "seq_loop ch indM c (Suc n) phi =
     (case seq_draw ch indM c phi of
        Inl e \<Rightarrow> Inl e
      | Inr x \<Rightarrow> seq_loop ch indM c n (phi @ [x]))"

definition seqBootstrap :: "chance \<Rightarrow> dense \<Rightarrow> int \<Rightarrow> error + int list" where
  "seqBootstrap ch indM sLength =
     (let c = snd (Dims indM) in
      if c = 0 then Inl (Failure ''indicator matrix must have at least one column'')
      else
        (let sLength' = (if sLength \<le> 0 then int c else sLength) in
         if sLength' > int c then
           Inl (Failure ''sample length cannot exceed number of columns'')
         else seq_loop ch indM c (nat sLength') []))"

definition standardBootstrap :: "chance \<Rightarrow> dense \<Rightarrow> int \<Rightarrow> error + int list" where
  "standardBootstrap ch indM sLength =
     (let c = snd (Dims indM);
          sLength' = (if sLength \<le> 0 then int c else sLength)
      in collect (map (\<lambda>i. rand_Intn ch i (int c)) [0..<nat sLength']))"

record SequentialBootstrapAlgorithm =
  sb_config :: AlgorithmConfig
  lookbackPeriod :: int
  confidenceThreshold :: real
  useSequential :: bool
  sampleSize :: int
  lastSamples :: "int list"

text \<open>The instance that the registered factory builds: every field has its zero value.\<close>

definition SequentialBootstrap_new :: SequentialBootstrapAlgorithm where
  "SequentialBootstrap_new =
     \<lparr>sb_config = AlgorithmConfig_zero, lookbackPeriod = 0, confidenceThreshold = 0,
      useSequential = False, sampleSize = 0, lastSamples = []\<rparr>"

text \<open>
  \<^verbatim>\<open>SequentialBootstrapAlgorithm.Configure\<close>, one definition per option block, last block
  first. A block that rejects its value returns at once and keeps the fields assigned so far.
\<close>

definition SB_Configure_sample_size ::
  "SequentialBootstrapAlgorithm \<Rightarrow> AlgorithmConfig \<Rightarrow> error option \<times> SequentialBootstrapAlgorithm" where
  "SB_Configure_sample_size s config =
     (case AdditionalParams config ''sample_size'' of
        Some val \<Rightarrow> if val < 1 then (Some (Failure ''sample_size must be at least 1''), s)
                     else (None, s\<lparr>sampleSize := go_int val\<rparr>)
      | None \<Rightarrow> (None, s))"

definition SB_Configure_use_sequential ::
  "SequentialBootstrapAlgorithm \<Rightarrow> AlgorithmConfig \<Rightarrow> error option \<times> SequentialBootstrapAlgorithm" where
  "SB_Configure_use_sequential s config =
     (case AdditionalParams config ''use_sequential'' of
        Some val \<Rightarrow> SB_Configure_sample_size (s\<lparr>useSequential := (val > 1 / 2)\<rparr>) config
      | None \<Rightarrow> SB_Configure_sample_size s config)"

definition SB_Configure_confidence_threshold ::
  "SequentialBootstrapAlgorithm \<Rightarrow> AlgorithmConfig \<Rightarrow> error option \<times> SequentialBootstrapAlgorithm" where
  "SB_Configure_confidence_threshold s config =
     (case AdditionalParams config ''confidence_threshold'' of
        Some val \<Rightarrow> if val < 0 \<or> val > 1
                     then (Some (Failure ''confidence_threshold must be between 0 and 1''), s)
                     else SB_Configure_use_sequential (s\<lparr>confidenceThreshold := val\<rparr>) config
      | None \<Rightarrow> SB_Configure_use_sequential s config)"

definition SB_Configure ::
  "SequentialBootstrapAlgorithm \<Rightarrow> AlgorithmConfig \<Rightarrow> error option \<times> SequentialBootstrapAlgorithm" where
  "SB_Configure s config =
     (let s1 = s\<lparr>sb_config := config, lookbackPeriod := 20, confidenceThreshold := 65 / 100,
                 useSequential := True, sampleSize := 50\<rparr>
      in case AdditionalParams config ''lookback_period'' of
           Some val \<Rightarrow> if val < 1 then (Some (Failure ''lookback_period must be at least 1''), s1)
                        else SB_Configure_confidence_threshold (s1\<lparr>lookbackPeriod := go_int val\<rparr>) config
         | None \<Rightarrow> SB_Configure_confidence_threshold s1 config)"

text \<open>
  The counting loop over the samples, with state \<open>(upSignals, downSignals)\<close>. A negative
  sample index would index the history out of range.
\<close>

fun count_signals :: "MarketData list \<Rightarrow> int list \<Rightarrow> nat \<times> nat \<Rightarrow> error + nat \<times> nat" where
  "count_signals hist [] acc = Inr acc"
| "count_signals hist (idx # rest) acc =
     (if idx \<ge> int (length hist) - 1 then count_signals hist rest acc
      else if idx < 0 then Inl (Panic ''index out of range'')
      else if Price (hist ! nat (idx + 1)) > Price (hist ! nat idx)
        then count_signals hist rest (fst acc + 1, snd acc)
        else count_signals hist rest (fst acc, snd acc + 1))"

text \<open>The decision of \<^verbatim>\<open>Process\<close> from the two counts.\<close>

definition SB_decide :: "SequentialBootstrapAlgorithm \<Rightarrow> nat \<Rightarrow> nat \<Rightarrow> AlgorithmResult" where
  "SB_decide s upSignals downSignals =
     (let totalSignals = upSignals + downSignals;
          (confidence, signal, orderType) =
             (if totalSignals > 0 then
                (if upSignals > downSignals
                 then (real upSignals / real totalSignals, ''BUY'', ''MARKET'')
                 else (real downSignals / real totalSignals, ''SELL'', ''MARKET''))
              else (1 / 2, ''HOLD'', ''NONE''));
          below = (confidence < confidenceThreshold s)
      in \<lparr>Signal = (if below then ''HOLD'' else signal),
          OrderType = (if below then ''NONE'' else orderType),
          LimitPrice = None, Confidence = confidence\<rparr>)"

text \<open>
  The history that \<^verbatim>\<open>Process\<close> works on: the last \<^verbatim>\<open>lookbackPeriod\<close> bars, when there
  are more.
\<close>

definition history_window :: "SequentialBootstrapAlgorithm \<Rightarrow> MarketData list \<Rightarrow> MarketData list" where
  "history_window s historicalData =
     (if int (length historicalData) > lookbackPeriod s
      then drop (length historicalData - nat (lookbackPeriod s)) historicalData
      else historicalData)"

text \<open>The bootstrap that \<^verbatim>\<open>Process\<close> runs, with the error wrapped as the source does.\<close>

definition draw_samples :: "chance \<Rightarrow> SequentialBootstrapAlgorithm \<Rightarrow> dense \<Rightarrow> error + int list" where
  "draw_samples ch s indM =
     (if useSequential s then
        (case seqBootstrap ch indM (sampleSize s) of
           Inl e \<Rightarrow> Inl (wrap_error ''sequential bootstrap failed: '' e)
         | Inr samples \<Rightarrow> Inr samples)
      else standardBootstrap ch indM (sampleSize s))"

text \<open>
  \<^verbatim>\<open>SequentialBootstrapAlgorithm.Process\<close>. The current market data is not read. The
  slice \<^verbatim>\<open>historicalData[histLen-s.lookbackPeriod:]\<close> panics for a negative lookback.
\<close>

definition SB_Process ::
  "chance \<Rightarrow> SequentialBootstrapAlgorithm \<Rightarrow> string \<Rightarrow> MarketData option \<Rightarrow> MarketData list \<Rightarrow>
   error + AlgorithmResult" where
  "SB_Process ch s symbol currentData historicalData =
     (if int (length historicalData) < lookbackPeriod s then
        Inl (Failure ''insufficient historical data'')
      else if lookbackPeriod s < 0 then Inl (Panic ''slice bounds out of range'')
      else
        (let hist = history_window s historicalData;
             barIx = map int [0..<length hist];
             t1 = map (\<lambda>i. real (i + 1)) [0..<length hist]
         in case getIndMatrix barIx t1 of
              Inl e \<Rightarrow> Inl (wrap_error ''failed to create indicator matrix: '' e)
            | Inr indM \<Rightarrow>
                (case draw_samples ch s indM of
                   Inl e \<Rightarrow> Inl e
                 | Inr samples \<Rightarrow>
                     (case count_signals hist samples (0, 0) of
                        Inl e \<Rightarrow> Inl e
                      | Inr (upSignals, downSignals) \<Rightarrow> Inr (SB_decide s upSignals downSignals)))))"

section \<open>Meta-labeling\<close>

type_synonym FeatureType = string
type_synonym ModelType = string

definition FeatureTypePrice :: FeatureType where "FeatureTypePrice = ''price''"
definition FeatureTypeVolume :: FeatureType where "FeatureTypeVolume = ''volume''"
definition FeatureTypeVolatility :: FeatureType where "FeatureTypeVolatility = ''volatility''"
definition FeatureTypeTechnical :: FeatureType where "FeatureTypeTechnical = ''technical''"

definition ModelTypeLogisticRegression :: ModelType where
  "ModelTypeLogisticRegression = ''logistic_regression''"
definition ModelTypeRandomForest :: ModelType where "ModelTypeRandomForest = ''random_forest''"
definition ModelTypeSimpleRules :: ModelType where "ModelTypeSimpleRules = ''simple_rules''"

record MetaLabelResult =
  OriginalSignal :: string
  MetaLabel :: bool
  ml_Confidence :: real
  SuggestedSize :: real

text \<open>\<^verbatim>\<open>MetaLabelingAlgorithm\<close>, without the unused \<^verbatim>\<open>modelParams\<close>.\<close>

record MetaLabelingAlgorithm =
  ml_config :: AlgorithmConfig
  ml_confidenceThreshold :: real
  ml_features :: "FeatureType list"
  modelType :: ModelType
  primaryAlgorithm :: AlgorithmType
  ml_weights :: "real list"
  ml_bias :: real
  featureRanges :: "string \<rightharpoonup> real \<times> real"

definition MetaLabeling_new :: MetaLabelingAlgorithm where
  "MetaLabeling_new =
     \<lparr>ml_config = AlgorithmConfig_zero, ml_confidenceThreshold = 0, ml_features = [],
      modelType = [], primaryAlgorithm = [], ml_weights = [], ml_bias = 0,
      featureRanges = Map.empty\<rparr>"

text \<open>\<^verbatim>\<open>removeFeature\<close> removes the first occurrence of a feature type.\<close>

definition removeFeature :: "MetaLabelingAlgorithm \<Rightarrow> FeatureType \<Rightarrow> MetaLabelingAlgorithm" where
  "removeFeature m featureType = m\<lparr>ml_features := remove1 featureType (ml_features m)\<rparr>"

text \<open>One feature toggle of \<^verbatim>\<open>Configure\<close>: a value \<open>\<le> 0.5\<close> removes the feature type.\<close>

definition toggle_feature ::
  "AlgorithmConfig \<Rightarrow> string \<Rightarrow> FeatureType \<Rightarrow> MetaLabelingAlgorithm \<Rightarrow> MetaLabelingAlgorithm" where
  "toggle_feature config key featureType m =
     (case AdditionalParams config key of
        Some val \<Rightarrow> if val \<le> 1 / 2 then removeFeature m featureType else m
      | None \<Rightarrow> m)"

definition ML_Configure ::
  "MetaLabelingAlgorithm \<Rightarrow> AlgorithmConfig \<Rightarrow> error option \<times> MetaLabelingAlgorithm" where
  "ML_Configure m config =
     (let m1 = m\<lparr>ml_config := config, ml_confidenceThreshold := 6 / 10,
                 ml_features := [FeatureTypePrice, FeatureTypeVolume, FeatureTypeVolatility,
                                 FeatureTypeTechnical],
                 modelType := ModelTypeSimpleRules,
                 primaryAlgorithm := AlgorithmTypeSequentialBootstrap,
                 featureRanges := [''price_change'' \<mapsto> (- (5 / 100), 5 / 100),
                                   ''volume_ratio'' \<mapsto> (0, 3),
                                   ''volatility'' \<mapsto> (0, 5 / 100),
                                   ''rsi'' \<mapsto> (0, 100),
                                   ''macd'' \<mapsto> (- (5 / 100), 5 / 100),
                                   ''bollinger_pct_b'' \<mapsto> (0, 1)]\<rparr>;
          rest = (\<lambda>m2.
            (let m3 = toggle_feature config ''use_technical_features'' FeatureTypeTechnical
                       (toggle_feature config ''use_volatility_features'' FeatureTypeVolatility
                         (toggle_feature config ''use_volume_features'' FeatureTypeVolume
                           (toggle_feature config ''use_price_features'' FeatureTypePrice m2)))
             in if length (ml_features m3) = 0
                then (Some (Failure ''at least one feature type must be enabled''), m3)
                else (None, m3\<lparr>ml_weights := [2 / 10, 2 / 10, 3 / 10, 3 / 10],
                                ml_bias := - (1 / 10)\<rparr>)))
      in case AdditionalParams config ''confidence_threshold'' of
           Some val \<Rightarrow> if val < 0 \<or> val > 1
                        then (Some (Failure ''confidence_threshold must be between 0 and 1''), m1)
                        else rest (m1\<lparr>ml_confidenceThreshold := val\<rparr>)
         | None \<Rightarrow> rest m1)"

definition normalizeFeature :: "real \<Rightarrow> string \<Rightarrow> (string \<rightharpoonup> real \<times> real) \<Rightarrow> real" where
  "normalizeFeature v featureName ranges =
     (case ranges featureName of
        None \<Rightarrow> v
      | Some (lo, hi) \<Rightarrow> max 0 (min 1 ((v - lo) / (hi - lo))))"

definition sigmoid :: "real \<Rightarrow> real" where
  "sigmoid x = 1 / (1 + exp (- x))"

text \<open>Log returns \<^verbatim>\<open>math.Log(prices[i] / prices[i-1])\<close>.\<close>

definition log_returns :: "real list \<Rightarrow> real list" where
  "log_returns prices = map (\<lambda>i. ln (prices ! i / prices ! (i - 1))) [1..<length prices]"

text \<open>\<^verbatim>\<open>calculateVolatility\<close>; \<^verbatim>\<open>make([]float64, len(prices)-1)\<close> panics on no prices.\<close>

definition calculateVolatility :: "real list \<Rightarrow> int \<Rightarrow> error + real" where
  "calculateVolatility prices window =
     (if int (length prices) < window then
        Inl (Failure ''insufficient data for volatility calculation'')
      else if prices = [] then Inl (Panic ''makeslice: len out of range'')
      else
        (let returns = log_returns prices;
             mu = sum_list returns / real (length returns);
             variance = sum_list (map (\<lambda>r. (r - mu)\<^sup>2) returns)
                          / (real (length returns) - 1)
         in Inr (sqrt variance)))"

text \<open>\<^verbatim>\<open>calculateRSI\<close> over the first \<open>period\<close> price changes.\<close>

definition calculateRSI :: "real list \<Rightarrow> nat \<Rightarrow> real" where
  "calculateRSI prices period =
     (if length prices < period + 1 then 50
      else
        (let changes = map (\<lambda>i. prices ! i - prices ! (i - 1)) [1..<period + 1];
             gains = sum_list (filter (\<lambda>change. change \<ge> 0) changes);
             losses = sum_list (map uminus (filter (\<lambda>change. \<not> change \<ge> 0) changes));
             avgGain = gains / real period;
             avgLoss = losses / real period
         in if avgLoss = 0 then 100
            else 100 - (100 / (1 + avgGain / avgLoss))))"

text \<open>
  \<^verbatim>\<open>calculateEMA\<close>; with fewer prices than the period it reads the last price. Its only
  caller passes 26 prices or more.
\<close>

definition calculateEMA :: "real list \<Rightarrow> nat \<Rightarrow> real" where
  "calculateEMA prices period =
     (if length prices < period then last prices
      else
        (let multiplier = 2 / real (period + 1)
         in fold (\<lambda>price ema. (price - ema) * multiplier + ema) (tl prices) (hd prices)))"

definition calculateMACD :: "real list \<Rightarrow> real" where
  "calculateMACD prices =
     (if length prices < 26 then 0
      else (calculateEMA prices 12 - calculateEMA prices 26) / last prices)"

definition calculateBollingerPctB :: "real list \<Rightarrow> nat \<Rightarrow> real \<Rightarrow> real" where
  "calculateBollingerPctB prices period numStdDev =
     (if length prices < period then 1 / 2
      else
        (let window = drop (length prices - period) prices;
             sma = sum_list window / real period;
             variance = sum_list (map (\<lambda>price. (price - sma)\<^sup>2) window);
             stdDev = sqrt (variance / real period);
             upper = sma + numStdDev * stdDev;
             lower = sma - numStdDev * stdDev;
             currentPrice = last prices
         in (currentPrice - lower) / (upper - lower)))"

text \<open>The closure \<^verbatim>\<open>getHistorical\<close>: the bar \<open>i\<close> places before the last one, if any.\<close>

definition getHistorical :: "MarketData list \<Rightarrow> nat \<Rightarrow> MarketData option" where
  "getHistorical historicalData i =
     (let idx = int (length historicalData) - 1 - int i
      in if idx \<ge> 0 \<and> idx < int (length historicalData) then Some (historicalData ! nat idx)
         else None)"

text \<open>
  \<^verbatim>\<open>extractFeatures\<close>, one definition per feature family. The three families that read
  the current market data dereference its pointer, which panics when it is nil.
\<close>

definition price_features :: "MetaLabelingAlgorithm \<Rightarrow> MarketData \<Rightarrow> MarketData list \<Rightarrow> real list" where
  "price_features m cur historicalData =
     [(case getHistorical historicalData 0 of
         Some prev \<Rightarrow> normalizeFeature ((Price cur - Price prev) / Price prev) ''price_change''
                        (featureRanges m)
       | None \<Rightarrow> 0),
      (case getHistorical historicalData 4 of
         Some prev5 \<Rightarrow> normalizeFeature ((Price cur - Price prev5) / Price prev5) ''price_change''
                         (featureRanges m)
       | None \<Rightarrow> 0)]"

definition volume_features :: "MetaLabelingAlgorithm \<Rightarrow> MarketData \<Rightarrow> MarketData list \<Rightarrow> real list" where
  "volume_features m cur historicalData =
     (let found = List.map_filter (getHistorical historicalData) [0..<5];
          total = sum_list (map Volume24h found);
          count = length found
      in if count > 0 then
           [normalizeFeature (Volume24h cur / (total / real count)) ''volume_ratio''
              (featureRanges m)]
         else [0])"

text \<open>
  The window of 10 is positive, so \<^verbatim>\<open>calculateVolatility\<close> rejects an empty series before
  it can panic; any error is replaced by the default 0.01.
\<close>

definition volatility_features ::
  "MetaLabelingAlgorithm \<Rightarrow> MarketData \<Rightarrow> MarketData list \<Rightarrow> real list" where
  "volatility_features m cur historicalData =
     (let volatility = (case calculateVolatility (map Price historicalData) 10 of
                          Inl e \<Rightarrow> 1 / 100
                        | Inr v \<Rightarrow> v)
      in [normalizeFeature volatility ''volatility'' (featureRanges m),
          normalizeFeature ((High24h cur - Low24h cur) / Price cur) ''volatility''
            (featureRanges m)])"

definition technical_features :: "MetaLabelingAlgorithm \<Rightarrow> MarketData list \<Rightarrow> real list" where
  "technical_features m historicalData =
     (let prices = map Price historicalData
      in [normalizeFeature (calculateRSI prices 14) ''rsi'' (featureRanges m),
          normalizeFeature (calculateMACD prices) ''macd'' (featureRanges m),
          normalizeFeature (calculateBollingerPctB prices 20 2) ''bollinger_pct_b''
            (featureRanges m)])"

definition containsFeatureType :: "FeatureType list \<Rightarrow> FeatureType \<Rightarrow> bool" where
  "containsFeatureType fts featureType = list_ex (\<lambda>f. f = featureType) fts"

definition extractFeatures ::
  "MetaLabelingAlgorithm \<Rightarrow> MarketData option \<Rightarrow> MarketData list \<Rightarrow> error + real list" where
  "extractFeatures m currentData historicalData =
     (let wants = containsFeatureType (ml_features m);
          technical = (if wants FeatureTypeTechnical then technical_features m historicalData
                       else [])
      in case currentData of
           None \<Rightarrow>
             if wants FeatureTypePrice \<or> wants FeatureTypeVolume \<or> wants FeatureTypeVolatility
             then Inl (Panic ''nil pointer dereference'')
             else Inr technical
         | Some cur \<Rightarrow>
             Inr ((if wants FeatureTypePrice then price_features m cur historicalData else [])
                  @ (if wants FeatureTypeVolume then volume_features m cur historicalData else [])
                  @ (if wants FeatureTypeVolatility then volatility_features m cur historicalData
                     else [])
                  @ technical))"

definition applyMetaLabeling ::
  "MetaLabelingAlgorithm \<Rightarrow> string \<Rightarrow> real list \<Rightarrow> real \<Rightarrow> error + MetaLabelResult" where
  "applyMetaLabeling m signal feats primaryConfidence =
     (if length feats = 0 then Inl (Failure ''no features provided for meta-labeling'')
      else
        (case (if modelType m = ModelTypeSimpleRules then
                 (if length (ml_weights m) < length feats
                  then Inl (Failure ''insufficient weights for features'')
                  else Inr (sigmoid (sum_list (map (\<lambda>i. feats ! i * ml_weights m ! i)
                                                 [0..<length feats]) + ml_bias m)))
               else if modelType m = ModelTypeLogisticRegression then Inr primaryConfidence
               else if modelType m = ModelTypeRandomForest then Inr primaryConfidence
               else Inr 0) of
           Inl e \<Rightarrow> Inl e
         | Inr metaConfidence \<Rightarrow>
             (let metaLabel = (metaConfidence \<ge> ml_confidenceThreshold m);
                  suggestedSize =
                    (if metaLabel
                     then max (1 / 10) (min 1 ((metaConfidence - (1 - metaConfidence)) * (1 / 2)))
                     else 0)
              in Inr \<lparr>OriginalSignal = signal, MetaLabel = metaLabel,
                      ml_Confidence = metaConfidence, SuggestedSize = suggestedSize\<rparr>)))"

text \<open>
  The primary stage shared by Meta-Labeling and Position Sizing: \<^verbatim>\<open>Create\<close> the primary
  algorithm, \<^verbatim>\<open>Configure\<close> it with the empty \<^verbatim>\<open>AlgorithmConfig{}\<close>, and \<^verbatim>\<open>Process\<close>. The
  field that names the primary algorithm is only ever assigned
  \<^verbatim>\<open>AlgorithmTypeSequentialBootstrap\<close>; for any other registered type the outcome of the
  three calls is the parameter \<open>other\<close>.
\<close>

type_synonym process = "string \<Rightarrow> MarketData option \<Rightarrow> MarketData list \<Rightarrow> error + AlgorithmResult"

definition primary_stage ::
  "chance \<Rightarrow> (AlgorithmType \<Rightarrow> process) \<Rightarrow> AlgorithmType \<Rightarrow> process" where
  "primary_stage ch other algType symbol currentData historicalData =
     (if \<not> registered algType then
        Inl (Failure ''error creating primary algorithm: unknown algorithm type'')
      else if algType = AlgorithmTypeSequentialBootstrap then
        (case SB_Configure SequentialBootstrap_new AlgorithmConfig_zero of
           (Some e, s) \<Rightarrow> Inl (wrap_error ''error configuring primary algorithm: '' e)
         | (None, s) \<Rightarrow>
             (case SB_Process ch s symbol currentData historicalData of
                Inl e \<Rightarrow> Inl (wrap_error ''error processing primary algorithm: '' e)
              | Inr primaryResult \<Rightarrow> Inr primaryResult))
      else other algType symbol currentData historicalData)"

text \<open>
  Steps 2 to 4 of \<^verbatim>\<open>MetaLabelingAlgorithm.Process\<close>. The explanation loop reads
  \<^verbatim>\<open>m.weights[i]\<close> for every enabled feature type.
\<close>

definition ML_meta_stage ::
  "MetaLabelingAlgorithm \<Rightarrow> AlgorithmResult \<Rightarrow> MarketData option \<Rightarrow> MarketData list \<Rightarrow>
   error + AlgorithmResult" where
  "ML_meta_stage m primaryResult currentData historicalData =
     (case extractFeatures m currentData historicalData of
        Inl e \<Rightarrow> Inl e
      | Inr feats \<Rightarrow>
          (case applyMetaLabeling m (Signal primaryResult) feats (Confidence primaryResult) of
             Inl e \<Rightarrow> Inl (wrap_error ''error applying meta-labeling: '' e)
           | Inr metaLabelResult \<Rightarrow>
               if length (ml_weights m) < length (ml_features m) then
                 Inl (Panic ''index out of range'')
               else if MetaLabel metaLabelResult then
                 Inr \<lparr>Signal = Signal primaryResult, OrderType = OrderType primaryResult,
                      LimitPrice = None, Confidence = ml_Confidence metaLabelResult\<rparr>
               else
                 Inr \<lparr>Signal = ''hold'', OrderType = ''none'', LimitPrice = None,
                      Confidence = 1 / 2\<rparr>))"

text \<open>The pass-through check on the primary result, and what follows it.\<close>

definition ML_after_primary ::
  "MetaLabelingAlgorithm \<Rightarrow> AlgorithmResult \<Rightarrow> MarketData option \<Rightarrow> MarketData list \<Rightarrow>
   error + AlgorithmResult" where
  "ML_after_primary m primaryResult currentData historicalData =
     (if Signal primaryResult = ''hold'' then Inr primaryResult
      else ML_meta_stage m primaryResult currentData historicalData)"

definition ML_Process ::
  "chance \<Rightarrow> (AlgorithmType \<Rightarrow> process) \<Rightarrow> MetaLabelingAlgorithm \<Rightarrow> process" where
  "ML_Process ch other m symbol currentData historicalData =
     (if length historicalData < 10 then
        Inl (Failure ''insufficient historical data for meta-labeling'')
      else
        (case primary_stage ch other (primaryAlgorithm m) symbol currentData historicalData of
           Inl e \<Rightarrow> Inl e
         | Inr primaryResult \<Rightarrow> ML_after_primary m primaryResult currentData historicalData))"

section \<open>Position sizing\<close>

record PositionSizeResult =
  psr_Symbol :: string
  psr_Signal :: string
  Size :: real
  psr_Confidence :: real
  VolAdjusted :: bool
  RiskPerTrade :: real

record PositionSizingAlgorithm =
  ps_config :: AlgorithmConfig
  maxSize :: real
  riskFraction :: real
  useVolAdjustment :: bool
  volLookback :: int
  maxDrawdown :: real
  ps_primaryAlgorithm :: AlgorithmType
  metaLabeling :: bool

definition PositionSizing_new :: PositionSizingAlgorithm where
  "PositionSizing_new =
     \<lparr>ps_config = AlgorithmConfig_zero, maxSize = 0, riskFraction = 0, useVolAdjustment = False,
      volLookback = 0, maxDrawdown = 0, ps_primaryAlgorithm = [], metaLabeling = False\<rparr>"

text \<open>
  \<^verbatim>\<open>PositionSizingAlgorithm.Configure\<close>, one definition per option block, last block
  first.
\<close>

definition PS_Configure_use_meta_labeling ::
  "PositionSizingAlgorithm \<Rightarrow> AlgorithmConfig \<Rightarrow> error option \<times> PositionSizingAlgorithm" where
  "PS_Configure_use_meta_labeling p config =
     (case AdditionalParams config ''use_meta_labeling'' of
        Some val \<Rightarrow> (None, p\<lparr>metaLabeling := (val > 1 / 2)\<rparr>)
      | None \<Rightarrow> (None, p))"

definition PS_Configure_max_drawdown ::
  "PositionSizingAlgorithm \<Rightarrow> AlgorithmConfig \<Rightarrow> error option \<times> PositionSizingAlgorithm" where
  "PS_Configure_max_drawdown p config =
     (case AdditionalParams config ''max_drawdown'' of
        Some val \<Rightarrow> if val \<le> 0 \<or> val > 1 / 2
                     then (Some (Failure ''max_drawdown must be between 0 and 0.5''), p)
                     else PS_Configure_use_meta_labeling (p\<lparr>maxDrawdown := val\<rparr>) config
      | None \<Rightarrow> PS_Configure_use_meta_labeling p config)"

definition PS_Configure_vol_lookback ::
  "PositionSizingAlgorithm \<Rightarrow> AlgorithmConfig \<Rightarrow> error option \<times> PositionSizingAlgorithm" where
  "PS_Configure_vol_lookback p config =
     (case AdditionalParams config ''vol_lookback'' of
        Some val \<Rightarrow> if val < 1 then (Some (Failure ''vol_lookback must be at least 1''), p)
                     else PS_Configure_max_drawdown (p\<lparr>volLookback := go_int val\<rparr>) config
      | None \<Rightarrow> PS_Configure_max_drawdown p config)"

definition PS_Configure_use_vol_adjustment ::
  "PositionSizingAlgorithm \<Rightarrow> AlgorithmConfig \<Rightarrow> error option \<times> PositionSizingAlgorithm" where
  "PS_Configure_use_vol_adjustment p config =
     (case AdditionalParams config ''use_vol_adjustment'' of
        Some val \<Rightarrow> PS_Configure_vol_lookback (p\<lparr>useVolAdjustment := (val > 1 / 2)\<rparr>) config
      | None \<Rightarrow> PS_Configure_vol_lookback p config)"

definition PS_Configure_risk_fraction ::
  "PositionSizingAlgorithm \<Rightarrow> AlgorithmConfig \<Rightarrow> error option \<times> PositionSizingAlgorithm" where
  "PS_Configure_risk_fraction p config =
     (case AdditionalParams config ''risk_fraction'' of
        Some val \<Rightarrow> if val \<le> 0 \<or> val > 1
                     then (Some (Failure ''risk_fraction must be between 0 and 1''), p)
                     else PS_Configure_use_vol_adjustment (p\<lparr>riskFraction := val\<rparr>) config
      | None \<Rightarrow> PS_Configure_use_vol_adjustment p config)"

definition PS_Configure ::
  "PositionSizingAlgorithm \<Rightarrow> AlgorithmConfig \<Rightarrow> error option \<times> PositionSizingAlgorithm" where
  "PS_Configure p config =
     (let p1 = p\<lparr>ps_config := config, maxSize := 2 / 10, riskFraction := 3 / 10,
                 useVolAdjustment := True, volLookback := 20, maxDrawdown := 1 / 10,
                 ps_primaryAlgorithm := AlgorithmTypeSequentialBootstrap, metaLabeling := True\<rparr>
      in case AdditionalParams config ''max_size'' of
           Some val \<Rightarrow> if val \<le> 0 \<or> val > 1
                        then (Some (Failure ''max_size must be between 0 and 1''), p1)
                        else PS_Configure_risk_fraction (p1\<lparr>maxSize := val\<rparr>) config
         | None \<Rightarrow> PS_Configure_risk_fraction p1 config)"

text \<open>The method \<^verbatim>\<open>calculatePositionSize\<close> of the position sizing algorithm.\<close>

definition PS_calculatePositionSize ::
  "PositionSizingAlgorithm \<Rightarrow> string \<Rightarrow> real \<Rightarrow> real \<Rightarrow> real \<Rightarrow> error + PositionSizeResult" where
  "PS_calculatePositionSize p signal confidence volatility currentPrice =
     (if signal \<noteq> ''buy'' \<and> signal \<noteq> ''sell'' then Inl (Failure ''invalid signal'')
      else if confidence \<le> 0 \<or> confidence > 1 then
        Inl (Failure ''confidence must be between 0 and 1'')
      else if volatility \<le> 0 then Inl (Failure ''volatility must be positive'')
      else
        (let winProb = confidence;
             winLossRatio = 1;
             kellyFraction = max 0
               ((winProb * winLossRatio - (1 - winProb)) / winLossRatio * riskFraction p);
             sz = (if useVolAdjustment p then
                     (let baselineVol = 1 / 100;
                          volScalingFactor = volatility / baselineVol;
                          adjustment = min 2 (max (1 / 2) (1 / volScalingFactor))
                      in kellyFraction * adjustment)
                   else kellyFraction);
             capped = min (maxSize p) sz
         in Inr \<lparr>psr_Symbol = signal, psr_Signal = signal, Size = capped,
                 psr_Confidence = confidence, VolAdjusted = useVolAdjustment p,
                 RiskPerTrade = capped * volatility\<rparr>))"

text \<open>
  Step 2 of \<^verbatim>\<open>PositionSizingAlgorithm.Process\<close>: with meta-labeling enabled, a fresh
  Meta-Labeling algorithm is created (the type is registered), configured with the empty
  configuration and run. The step either ends the call with the meta-labeling result (left)
  or continues with a confidence (right).
\<close>

definition PS_meta_step ::
  "chance \<Rightarrow> (AlgorithmType \<Rightarrow> process) \<Rightarrow> PositionSizingAlgorithm \<Rightarrow> AlgorithmResult \<Rightarrow>
   string \<Rightarrow> MarketData option \<Rightarrow> MarketData list \<Rightarrow> error + (AlgorithmResult + real)" where
  "PS_meta_step ch other p primaryResult symbol currentData historicalData =
     (if metaLabeling p then
        (case ML_Configure MetaLabeling_new AlgorithmConfig_zero of
           (Some e, m) \<Rightarrow> Inl (wrap_error ''error configuring meta-labeling algorithm: '' e)
         | (None, m) \<Rightarrow>
             (case ML_Process ch other m symbol currentData historicalData of
                Inl e \<Rightarrow> Inl (wrap_error ''error processing meta-labeling algorithm: '' e)
              | Inr metaLabelResult \<Rightarrow>
                  if Signal metaLabelResult = ''hold'' then Inr (Inl metaLabelResult)
                  else Inr (Inr (Confidence metaLabelResult))))
      else Inr (Inr (Confidence primaryResult)))"

text \<open>Steps 3 and 4: volatility and position size; the result repeats the primary signal.\<close>

definition PS_size_stage ::
  "PositionSizingAlgorithm \<Rightarrow> AlgorithmResult \<Rightarrow> real \<Rightarrow> MarketData option \<Rightarrow> MarketData list \<Rightarrow>
   error + AlgorithmResult" where
  "PS_size_stage p primaryResult confidence currentData historicalData =
     (case calculateVolatility (map Price historicalData) (volLookback p) of
        Inl e \<Rightarrow> Inl (wrap_error ''error calculating volatility: '' e)
      | Inr volatility \<Rightarrow>
          (case currentData of
             None \<Rightarrow> Inl (Panic ''nil pointer dereference'')
           | Some cur \<Rightarrow>
               (case PS_calculatePositionSize p (Signal primaryResult) confidence volatility
                       (Price cur) of
                  Inl e \<Rightarrow> Inl (wrap_error ''error calculating position size: '' e)
                | Inr positionResult \<Rightarrow>
                    Inr \<lparr>Signal = Signal primaryResult, OrderType = OrderType primaryResult,
                         LimitPrice = None, Confidence = confidence\<rparr>)))"

text \<open>
  \<^verbatim>\<open>PositionSizingAlgorithm.Process\<close>. The primary algorithm and the meta-labeling
  algorithm run one after the other, each on its own stretch of the random stream:
  \<open>ch1\<close> and \<open>ch2\<close>.
\<close>

definition PS_Process ::
  "chance \<Rightarrow> chance \<Rightarrow> (AlgorithmType \<Rightarrow> process) \<Rightarrow> PositionSizingAlgorithm \<Rightarrow> process" where
  "PS_Process ch1 ch2 other p symbol currentData historicalData =
     (if int (length historicalData) < volLookback p then
        Inl (Failure ''insufficient historical data'')
      else
        (case primary_stage ch1 other (ps_primaryAlgorithm p) symbol currentData historicalData of
           Inl e \<Rightarrow> Inl e
         | Inr primaryResult \<Rightarrow>
             if Signal primaryResult = ''hold'' then Inr primaryResult
             else
               (case PS_meta_step ch2 other p primaryResult symbol currentData historicalData of
                  Inl e \<Rightarrow> Inl e
                | Inr (Inl metaLabelResult) \<Rightarrow> Inr metaLabelResult
                | Inr (Inr confidence) \<Rightarrow>
                    PS_size_stage p primaryResult confidence currentData historicalData)))"

section \<open>\<^verbatim>\<open>Configure\<close> of the remaining algorithms\<close>

text \<open>
  HRP, MVO and Entropy Pooling have no \<^verbatim>\<open>Configure\<close> of their own: theirs is
  \<^verbatim>\<open>BaseAlgorithm.Configure\<close>.
\<close>

record CUSUMFilterAlgorithm =
  cusum_config :: AlgorithmConfig
  threshold :: real
  drift :: real
  spPrev :: real
  snPrev :: real

definition NewCUSUMFilterAlgorithm :: CUSUMFilterAlgorithm where
  "NewCUSUMFilterAlgorithm =
     \<lparr>cusum_config = AlgorithmConfig_zero, threshold = 1, drift = 2 / 100, spPrev = 0,
      snPrev = 0\<rparr>"

definition CUSUM_Configure ::
  "CUSUMFilterAlgorithm \<Rightarrow> AlgorithmConfig \<Rightarrow> error option \<times> CUSUMFilterAlgorithm" where
  "CUSUM_Configure c config =
     (case BaseAlgorithm_Configure (cusum_config c) config of
        (Some err, b) \<Rightarrow> (Some err, c\<lparr>cusum_config := b\<rparr>)
      | (None, b) \<Rightarrow>
          (let c1 = c\<lparr>cusum_config := b\<rparr>;
               c2 = (case AdditionalParams config ''threshold'' of
                       Some v \<Rightarrow> c1\<lparr>threshold := v\<rparr> | None \<Rightarrow> c1);
               c3 = (case AdditionalParams config ''drift'' of
                       Some v \<Rightarrow> c2\<lparr>drift := v\<rparr> | None \<Rightarrow> c2)
           in (None, c3)))"

record FractionalDiffAlgorithm =
  fd_config :: AlgorithmConfig
  fd_d :: real
  fd_threshold :: real
  windowSize :: int
  useFixedWidth :: bool

definition FractionalDiff_new :: FractionalDiffAlgorithm where
  "FractionalDiff_new =
     \<lparr>fd_config = AlgorithmConfig_zero, fd_d = 0, fd_threshold = 0, windowSize = 0,
      useFixedWidth = False\<rparr>"

definition FD_Configure_use_fixed_width ::
  "FractionalDiffAlgorithm \<Rightarrow> AlgorithmConfig \<Rightarrow> error option \<times> FractionalDiffAlgorithm" where
  "FD_Configure_use_fixed_width f config =
     (case AdditionalParams config ''use_fixed_width'' of
        Some val \<Rightarrow> (None, f\<lparr>useFixedWidth := (val > 1 / 2)\<rparr>)
      | None \<Rightarrow> (None, f))"

definition FD_Configure_window_size ::
  "FractionalDiffAlgorithm \<Rightarrow> AlgorithmConfig \<Rightarrow> error option \<times> FractionalDiffAlgorithm" where
  "FD_Configure_window_size f config =
     (case AdditionalParams config ''window_size'' of
        Some val \<Rightarrow> if val < 1 then (Some (Failure ''window_size must be at least 1''), f)
                     else FD_Configure_use_fixed_width (f\<lparr>windowSize := go_int val\<rparr>) config
      | None \<Rightarrow> FD_Configure_use_fixed_width f config)"

definition FD_Configure_threshold ::
  "FractionalDiffAlgorithm \<Rightarrow> AlgorithmConfig \<Rightarrow> error option \<times> FractionalDiffAlgorithm" where
  "FD_Configure_threshold f config =
     (case AdditionalParams config ''threshold'' of
        Some val \<Rightarrow> if val \<le> 0 then (Some (Failure ''threshold must be positive''), f)
                     else FD_Configure_window_size (f\<lparr>fd_threshold := val\<rparr>) config
      | None \<Rightarrow> FD_Configure_window_size f config)"

definition FD_Configure ::
  "FractionalDiffAlgorithm \<Rightarrow> AlgorithmConfig \<Rightarrow> error option \<times> FractionalDiffAlgorithm" where
  "FD_Configure f config =
     (let f1 = f\<lparr>fd_config := config, fd_d := 1 / 2, fd_threshold := 1 / 100000,
                 windowSize := 10, useFixedWidth := False\<rparr>
      in case AdditionalParams config ''d'' of
           Some val \<Rightarrow> if val < 0 \<or> val > 1
                        then (Some (Failure ''d must be between 0 and 1''), f1)
                        else FD_Configure_threshold (f1\<lparr>fd_d := val\<rparr>) config
         | None \<Rightarrow> FD_Configure_threshold f1 config)"

record TripleBarrierAlgorithm =
  tb_base :: AlgorithmConfig
  tb_config :: TripleBarrierConfig
  profitTaking :: real
  stopLoss :: real
  timeHorizon :: int
  volatilityWindow :: int

definition TripleBarrier_new :: TripleBarrierAlgorithm where
  "TripleBarrier_new =
     \<lparr>tb_base = AlgorithmConfig_zero,
      tb_config = \<lparr>ProfitTaking = 0, StopLoss = 0, TimeHorizon = 0, VolatilityLookback = 0\<rparr>,
      profitTaking = 0, stopLoss = 0, timeHorizon = 0, volatilityWindow = 0\<rparr>"

definition TB_Configure_volatility_lookback ::
  "TripleBarrierAlgorithm \<Rightarrow> AlgorithmConfig \<Rightarrow> error option \<times> TripleBarrierAlgorithm" where
  "TB_Configure_volatility_lookback t config =
     (let finish = (\<lambda>q. (None, q\<lparr>tb_config :=
            \<lparr>ProfitTaking = profitTaking q, StopLoss = stopLoss q, TimeHorizon = timeHorizon q,
             VolatilityLookback = volatilityWindow q\<rparr>\<rparr>))
      in case AdditionalParams config ''volatility_lookback'' of
           Some val \<Rightarrow> if val < 1
                        then (Some (Failure ''volatility_lookback must be at least 1''), t)
                        else finish (t\<lparr>volatilityWindow := go_int val\<rparr>)
         | None \<Rightarrow> finish t)"

definition TB_Configure_time_horizon ::
  "TripleBarrierAlgorithm \<Rightarrow> AlgorithmConfig \<Rightarrow> error option \<times> TripleBarrierAlgorithm" where
  "TB_Configure_time_horizon t config =
     (case AdditionalParams config ''time_horizon'' of
        Some val \<Rightarrow> if val < 1 then (Some (Failure ''time_horizon must be at least 1''), t)
                     else TB_Configure_volatility_lookback (t\<lparr>timeHorizon := go_int val\<rparr>) config
      | None \<Rightarrow> TB_Configure_volatility_lookback t config)"

definition TB_Configure_stop_loss ::
  "TripleBarrierAlgorithm \<Rightarrow> AlgorithmConfig \<Rightarrow> error option \<times> TripleBarrierAlgorithm" where
  "TB_Configure_stop_loss t config =
     (case AdditionalParams config ''stop_loss'' of
        Some val \<Rightarrow> if val \<le> 0 then (Some (Failure ''stop_loss must be positive''), t)
                     else TB_Configure_time_horizon (t\<lparr>stopLoss := val\<rparr>) config
      | None \<Rightarrow> TB_Configure_time_horizon t config)"

definition TB_Configure ::
  "TripleBarrierAlgorithm \<Rightarrow> AlgorithmConfig \<Rightarrow> error option \<times> TripleBarrierAlgorithm" where
  "TB_Configure t config =
     (let t1 = t\<lparr>tb_base := config, profitTaking := 2, stopLoss := 1, timeHorizon := 5,
                 volatilityWindow := 20\<rparr>
      in case AdditionalParams config ''profit_taking'' of
           Some val \<Rightarrow> if val \<le> 0 then (Some (Failure ''profit_taking must be positive''), t1)
                        else TB_Configure_stop_loss (t1\<lparr>profitTaking := val\<rparr>) config
         | None \<Rightarrow> TB_Configure_stop_loss t1 config)"

section \<open>Notions of the specification and test fixtures\<close>



text \<open>
  The sums \<open>\<Sigma>_buy\<close>, \<open>\<Sigma>_sell\<close> and \<open>\<Sigma>_all\<close> of the specification of the ensemble
  combiner, over the constituent confidences, and its test for the hold override
  \<open>|\<Sigma>_buy - \<Sigma>_sell| < 0.2 \<sqdot> \<Sigma>_all\<close>, in exact arithmetic.
\<close>

definition buy_confidence :: "AlgorithmResult list \<Rightarrow> real" where
  "buy_confidence results =
     sum_list (map Confidence (filter (\<lambda>r. Signal r = SignalBuy) results))"

definition sell_confidence :: "AlgorithmResult list \<Rightarrow> real" where
  "sell_confidence results =
     sum_list (map Confidence (filter (\<lambda>r. Signal r = SignalSell) results))"

definition all_confidence :: "AlgorithmResult list \<Rightarrow> real" where
  "all_confidence results = sum_list (map Confidence results)"

definition claimed_override :: "AlgorithmResult list \<Rightarrow> bool" where
  "claimed_override results =
     (\<bar>buy_confidence results - sell_confidence results\<bar> < (2 / 10) * all_confidence results)"

text \<open>
  The same sums in binary64: the confidences of the results that carry a given tag, and of
  all results, added up from 0 in the order of the results, every addition rounded.
\<close>

definition tag_weight :: "string \<Rightarrow> AlgorithmResult list \<Rightarrow> real" where
  "tag_weight tag results =
     foldl fadd 0 (map Confidence (filter (\<lambda>r. Signal r = tag) results))"

definition total_weight :: "AlgorithmResult list \<Rightarrow> real" where
  "total_weight results = foldl fadd 0 (map Confidence results)"

text \<open>
  Confidences between 0 and \<open>2^512\<close>: no sum, quotient or product of the combiner leaves
  the range of binary64 on them.
\<close>

definition confidences_in_range :: "AlgorithmResult list \<Rightarrow> bool" where
  "confidences_in_range results =
     list_all (\<lambda>r. 0 \<le> Confidence r \<and> Confidence r \<le> 2 ^ 512) results"

text \<open>A buy, a sell and a hold result at a given confidence.\<close>

definition buy_at :: "real \<Rightarrow> AlgorithmResult" where
  "buy_at c = \<lparr>Signal = SignalBuy, OrderType = ''market'', LimitPrice = None, Confidence = c\<rparr>"

definition sell_at :: "real \<Rightarrow> AlgorithmResult" where
  "sell_at c = \<lparr>Signal = SignalSell, OrderType = ''market'', LimitPrice = None, Confidence = c\<rparr>"

text \<open>
  The option ranges of the specification. An option is out of range when it is present and
  its value violates the range; an absent option never is. Meta-Labeling also needs one
  feature family left enabled.
\<close>

definition out_of_range :: "(string \<rightharpoonup> real) \<Rightarrow> string \<Rightarrow> (real \<Rightarrow> bool) \<Rightarrow> bool" where
  "out_of_range params key ok = (case params key of Some v \<Rightarrow> \<not> ok v | None \<Rightarrow> False)"

definition PurgedCV_rejects :: "(string \<rightharpoonup> real) \<Rightarrow> bool" where
  "PurgedCV_rejects params =
     (out_of_range params ''num_folds'' (\<lambda>v. 2 \<le> v)
      \<or> out_of_range params ''embargo_pct'' (\<lambda>v. 0 \<le> v \<and> v \<le> 1 / 2)
      \<or> out_of_range params ''test_size'' (\<lambda>v. 0 < v \<and> v < 1))"

definition SB_rejects :: "(string \<rightharpoonup> real) \<Rightarrow> bool" where
  "SB_rejects params =
     (out_of_range params ''lookback_period'' (\<lambda>v. 1 \<le> v)
      \<or> out_of_range params ''confidence_threshold'' (\<lambda>v. 0 \<le> v \<and> v \<le> 1)
      \<or> out_of_range params ''sample_size'' (\<lambda>v. 1 \<le> v))"

definition FD_rejects :: "(string \<rightharpoonup> real) \<Rightarrow> bool" where
  "FD_rejects params =
     (out_of_range params ''d'' (\<lambda>v. 0 \<le> v \<and> v \<le> 1)
      \<or> out_of_range params ''threshold'' (\<lambda>v. 0 < v)
      \<or> out_of_range params ''window_size'' (\<lambda>v. 1 \<le> v))"

definition TB_rejects :: "(string \<rightharpoonup> real) \<Rightarrow> bool" where
  "TB_rejects params =
     (out_of_range params ''profit_taking'' (\<lambda>v. 0 < v)
      \<or> out_of_range params ''stop_loss'' (\<lambda>v. 0 < v)
      \<or> out_of_range params ''time_horizon'' (\<lambda>v. 1 \<le> v)
      \<or> out_of_range params ''volatility_lookback'' (\<lambda>v. 1 \<le> v))"

definition PS_rejects :: "(string \<rightharpoonup> real) \<Rightarrow> bool" where
  "PS_rejects params =
     (out_of_range params ''max_size'' (\<lambda>v. 0 < v \<and> v \<le> 1)
      \<or> out_of_range params ''risk_fraction'' (\<lambda>v. 0 < v \<and> v \<le> 1)
      \<or> out_of_range params ''vol_lookback'' (\<lambda>v. 1 \<le> v)
      \<or> out_of_range params ''max_drawdown'' (\<lambda>v. 0 < v \<and> v \<le> 1 / 2))"

definition family_off :: "(string \<rightharpoonup> real) \<Rightarrow> string \<Rightarrow> bool" where
  "family_off params key = (case params key of Some v \<Rightarrow> v \<le> 1 / 2 | None \<Rightarrow> False)"

definition ML_rejects :: "(string \<rightharpoonup> real) \<Rightarrow> bool" where
  "ML_rejects params =
     (out_of_range params ''confidence_threshold'' (\<lambda>v. 0 \<le> v \<and> v \<le> 1)
      \<or> (family_off params ''use_price_features'' \<and> family_off params ''use_volume_features''
          \<and> family_off params ''use_volatility_features''
          \<and> family_off params ''use_technical_features''))"

text \<open>
  Every option name that some \<^verbatim>\<open>Configure\<close> reads from \<^verbatim>\<open>AdditionalParams\<close>, and a
  configuration extended by one option.
\<close>

definition known_options :: "string list" where
  "known_options =
     [''threshold'', ''drift'',
      ''lookback_period'', ''confidence_threshold'', ''use_sequential'', ''sample_size'',
      ''use_price_features'', ''use_volume_features'', ''use_volatility_features'',
      ''use_technical_features'',
      ''num_folds'', ''embargo_pct'', ''test_size'',
      ''max_size'', ''risk_fraction'', ''use_vol_adjustment'', ''vol_lookback'', ''max_drawdown'',
      ''use_meta_labeling'',
      ''d'', ''window_size'', ''use_fixed_width'',
      ''profit_taking'', ''stop_loss'', ''time_horizon'', ''volatility_lookback'']"

definition with_option :: "AlgorithmConfig \<Rightarrow> string \<Rightarrow> real \<Rightarrow> AlgorithmConfig" where
  "with_option config key v = config\<lparr>AdditionalParams := (AdditionalParams config)(key \<mapsto> v)\<rparr>"

text \<open>
  Fixtures for the sequential bootstrap: a source of chance whose every draw is 0, a
  Sequential Bootstrap configured with a lookback of 3 and a sample size of 2, and a primary
  stage that fails for the algorithm types that are not modelled.
\<close>

definition chance_zero :: chance where
  "chance_zero = \<lparr>raw_int = (\<lambda>t. 0), raw_float = (\<lambda>t. 0), visit_rank = (\<lambda>t k. 0)\<rparr>"

definition sb_small :: SequentialBootstrapAlgorithm where
  "sb_small = snd (SB_Configure SequentialBootstrap_new
     (AlgorithmConfig_zero\<lparr>AdditionalParams := [''lookback_period'' \<mapsto> 3, ''sample_size'' \<mapsto> 2]\<rparr>))"

definition no_primary :: "AlgorithmType \<Rightarrow> process" where
  "no_primary algType symbol currentData historicalData = Inl (Failure ''not modelled'')"

text \<open>Hourly sample times \<open>0, 1, \<dots>, n - 1\<close> hours, in nanoseconds.\<close>

definition hourly :: "nat \<Rightarrow> time list" where
  "hourly n = map (\<lambda>i. int i * 3600000000000) [0..<n]"

text \<open>
  The invalid entries of a risk-parameter update, in the words of the specification: an
  unknown key, a non-positive number for one of the four percent fields, a non-positive or
  non-integral number for \<^verbatim>\<open>max_trades_per_day\<close>.
\<close>

definition percent_key :: "string \<Rightarrow> bool" where
  "percent_key k = (k = ''max_position_size_percent'' \<or> k = ''max_daily_drawdown''
      \<or> k = ''stop_loss_percent'' \<or> k = ''take_profit_percent'')"

definition param_invalid :: "string \<Rightarrow> dyn \<Rightarrow> bool" where
  "param_invalid k v =
     (if percent_key k then
        (case v of DFloat64 x \<Rightarrow> x \<le> 0 | DInt n \<Rightarrow> n \<le> 0 | DOther t \<Rightarrow> False)
      else if k = ''max_trades_per_day'' then
        (case v of DFloat64 x \<Rightarrow> x \<le> 0 \<or> real_of_int \<lfloor>x\<rfloor> \<noteq> x | DInt n \<Rightarrow> n \<le> 0
                 | DOther t \<Rightarrow> False)
      else True)"

text \<open>
  The quantity that the specification gives for a buy:
  \<open>floor((totalValue \<sqdot> max_position_size_percent / 100) / price)\<close>, in exact arithmetic.
\<close>

definition claimed_buy_qty :: "real \<Rightarrow> real \<Rightarrow> real \<Rightarrow> real" where
  "claimed_buy_qty totalValue pct price = real_of_int \<lfloor>(totalValue * pct / 100) / price\<rfloor>"

text \<open>
  The range of the position size: the notional is finite in binary64 and its quotient by the
  price lies in the range of \<^verbatim>\<open>int\<close>.
\<close>

definition size_in_range :: "real \<Rightarrow> real \<Rightarrow> real \<Rightarrow> bool" where
  "size_in_range totalValue pct price =
     (finite64 (fmul totalValue (fdiv pct 100))
      \<and> int64_range (fdiv (fmul totalValue (fdiv pct 100)) price))"

text \<open>An existing long position: the portfolio has the symbol with a positive quantity.\<close>

definition held_long :: "TradingAlgorithm \<Rightarrow> string \<Rightarrow> bool" where
  "held_long a symbol = (case Positions (portfolio a) symbol of Some p \<Rightarrow> Quantity p > 0 | None \<Rightarrow> False)"

text \<open>
  A coordinator that tracks one symbol at the given price, with the given total value and
  maximum position size percent and no position; and a market buy signal for the symbol.
\<close>

definition gate_state :: "real \<Rightarrow> real \<Rightarrow> real \<Rightarrow> TradingAlgorithm" where
  "gate_state totalValue pct price =
     NewTradingAlgorithm
       \<lparr>marketData := [''AAPL'' \<mapsto> \<lparr>Symbol = ''AAPL'', Price = price, High24h = price,
                                     Low24h = price, Volume24h = 0, Change24h = 0\<rparr>],
        portfolio := \<lparr>Balance = totalValue, Positions = Map.empty, TotalValue = totalValue,
                      DailyPnL = 0, DailyReturn = 0\<rparr>,
        riskParameters := (riskParameters NewTradingAlgorithm)
                             (''max_position_size_percent'' \<mapsto> DFloat64 pct)\<rparr>"

definition buy_signal :: TradeSignal where
  "buy_signal = \<lparr>sig_Symbol = ''AAPL'', sig_Signal = SignalBuy, sig_OrderType = ''market'',
      sig_LimitPrice = None, sig_Timestamp = 0, sig_Confidence = None\<rparr>"

text \<open>A market-data bar at a given price.\<close>

definition bar :: "real \<Rightarrow> MarketData" where
  "bar p = \<lparr>Symbol = ''X'', Price = p, High24h = p, Low24h = p, Volume24h = 0, Change24h = 0\<rparr>"

section \<open>Verified properties\<close>

subsection \<open>Triple barrier\<close>

text \<open>
  Claim C6. On prices 100, 102, 104, 106, 108, 110 at daily times, with volatility 0.01,
  profit taking 3, stop loss 2 and time horizon 5, the function returns five results and the
  first one hits the upper barrier. Its label is \<open>-1\<close> (sell), not \<open>+1\<close>: at entry index 0
  there is no prior price, the seed label is hold, and an upper hit turns every seed other
  than buy into sell.
\<close>

theorem ApplyTripleBarrier_uptrend_first_label:
  "\<exists>rs. ApplyTripleBarrier [100, 102, 104, 106, 108, 110]
          [0, day_ns, 2 * day_ns, 3 * day_ns, 4 * day_ns, 5 * day_ns] (1 / 100)
          \<lparr>ProfitTaking = 3, StopLoss = 2, TimeHorizon = 5, VolatilityLookback = 20\<rparr> = Inr rs
        \<and> length rs = 5
        \<and> BarrierHit (rs ! 0) = BarrierTypeUpper
        \<and> Label (rs ! 0) = BarrierLabelSell
        \<and> Label (rs ! 0) \<noteq> BarrierLabelBuy"
proof -
  have "case ApplyTripleBarrier [100, 102, 104, 106, 108, 110]
          [0, day_ns, 2 * day_ns, 3 * day_ns, 4 * day_ns, 5 * day_ns] (1 / 100)
          \<lparr>ProfitTaking = 3, StopLoss = 2, TimeHorizon = 5, VolatilityLookback = 20\<rparr> of
          Inl e \<Rightarrow> False
        | Inr rs \<Rightarrow> length rs = 5 \<and> BarrierHit (rs ! 0) = BarrierTypeUpper
            \<and> Label (rs ! 0) = BarrierLabelSell \<and> Label (rs ! 0) \<noteq> BarrierLabelBuy"
    by code_simp
  then show ?thesis
    by (auto split: sum.splits)
qed

subsection \<open>Mean-variance optimisation\<close>

lemma simple_returns_falling: "simple_returns [16, 8, 6, 6] = [- (1 / 2), - (1 / 4), 0]"
  by (simp add: simple_returns_def upt_rec)

lemma standardDeviation_falling: "standardDeviation [- (1 / 2), - (1 / 4), 0] = 1 / 4"
proof -
  have "sqrt (1 / 16) = 1 / 4"
    by (rule real_sqrt_unique) (simp_all add: power2_eq_square)
  then show ?thesis
    by (simp add: standardDeviation_def mean_def power2_eq_square)
qed

lemma simple_returns_rising: "simple_returns [4, 6, 12, 30] = [1 / 2, 1, 3 / 2]"
  by (simp add: simple_returns_def upt_rec)

lemma standardDeviation_rising: "standardDeviation [1 / 2, 1, 3 / 2] = 1 / 2"
proof -
  have "sqrt (1 / 4) = 1 / 2"
    by (rule real_sqrt_unique) (simp_all add: power2_eq_square)
  then show ?thesis
    by (simp add: standardDeviation_def mean_def power2_eq_square)
qed

text \<open>
  Claim C1. Every result of an algorithm has a confidence in \<open>[0, 1]\<close>, and a limit order
  has a strictly positive limit price. The code breaks both in
  \<^verbatim>\<open>MVOAlgorithm.Process\<close>. On the price history 16, 8, 6, 6 the returns are
  \<open>-1/2, -1/4, 0\<close>, the Sharpe ratio is \<open>-1\<close>, and the sell branch returns the confidence
  \<open>0.7 - min(0.2, -1) = 1.7\<close>. On the rising history 4, 6, 12, 30 with a current price of 0
  (the snapshot that \<^verbatim>\<open>Start\<close> seeds) the buy branch returns a limit order at price 0.
\<close>

theorem MVO_Process_confidence_out_of_range:
  "MVO_Process AlgorithmConfig_zero ''X'' (Some (bar 6)) (map bar [16, 8, 6, 6])
     = Inr \<lparr>Signal = SignalSell, OrderType = ''market'', LimitPrice = None,
            Confidence = 17 / 10\<rparr>
   \<and> MVO_Process AlgorithmConfig_zero ''X'' (Some (bar 0)) (map bar [4, 6, 12, 30])
     = Inr \<lparr>Signal = SignalBuy, OrderType = ''limit'', LimitPrice = Some 0,
            Confidence = 9 / 10\<rparr>"
  by (simp add: MVO_Process_def bar_def simple_returns_falling standardDeviation_falling
      simple_returns_rising standardDeviation_rising mean_def AlgorithmConfig_zero_def Let_def)

subsection \<open>Binary64 arithmetic\<close>

lemmas f64_eval = round64_def expo_def rne_def pow2_def ilog2.simps fadd_def fsub_def
  fmul_def fdiv_def Let_def

lemma pow2_pos: "0 < pow2 e"
  by (simp add: pow2_def)

lemma rne_nonneg: "0 \<le> m \<Longrightarrow> 0 \<le> rne m"
  by (simp add: rne_def Let_def)

lemma round64_nonneg: "0 \<le> x \<Longrightarrow> 0 \<le> round64 x"
  using pow2_pos rne_nonneg by (simp add: round64_def Let_def less_imp_le)

lemma f64_literals:
  "round64 (4 / 5) = 3602879701896397 / 4503599627370496"
  "round64 (7 / 10) = 3152519739159347 / 4503599627370496"
  "round64 (3 / 5) = 5404319552844595 / 9007199254740992"
  "round64 (2 / 5) = 3602879701896397 / 9007199254740992"
  "round64 (1 / 5) = 3602879701896397 / 18014398509481984"
  "round64 (7 / 100) = 1261007895663739 / 18014398509481984"
  "round64 (1 / 20) = 3602879701896397 / 72057594037927936"
  "round64 (1188 / 25) = 6687845446645187 / 140737488355328"
  by (simp_all add: f64_eval)

subsection \<open>Ensemble combiner\<close>

lemma Signal_consts_distinct:
  "SignalBuy \<noteq> SignalSell" "SignalBuy \<noteq> SignalHold" "SignalSell \<noteq> SignalHold"
  "SignalSell \<noteq> SignalBuy" "SignalHold \<noteq> SignalBuy" "SignalHold \<noteq> SignalSell"
  by (simp_all add: SignalBuy_def SignalSell_def SignalHold_def)

lemma fold_tally_step_totals:
  "fold tally_step results (sw, tb, ts, tc) = (sw', tb', ts', tc') \<Longrightarrow>
   tb' = foldl fadd tb (map Confidence (filter (\<lambda>r. Signal r = SignalBuy) results))
   \<and> ts' = foldl fadd ts (map Confidence (filter (\<lambda>r. Signal r = SignalSell) results))
   \<and> tc' = foldl fadd tc (map Confidence results)"
proof (induction results arbitrary: sw tb ts tc)
  case Nil
  then show ?case by simp
next
  case (Cons r rs)
  obtain sw1 tb1 ts1 tc1 where step: "tally_step r (sw, tb, ts, tc) = (sw1, tb1, ts1, tc1)"
    by (cases "tally_step r (sw, tb, ts, tc)") auto
  with Cons.prems have "fold tally_step rs (sw1, tb1, ts1, tc1) = (sw', tb', ts', tc')"
    by simp
  from Cons.IH[OF this] step show ?case
    by (auto simp: tally_step_def Signal_consts_distinct split: if_splits)
qed

lemma tally_totals:
  "tally results = (sw, tb, ts, tc) \<Longrightarrow>
   tb = tag_weight SignalBuy results \<and> ts = tag_weight SignalSell results
   \<and> tc = total_weight results"
  unfolding tally_def tag_weight_def total_weight_def
  using fold_tally_step_totals[of results Map.empty 0 0 0 sw tb ts tc] by simp

lemma combineResults_override:
  assumes "2 \<le> length results"
    and "fst (winner order results) = SignalBuy \<or> fst (winner order results) = SignalSell"
  shows "\<exists>r. combineResults order symbol results = Inr r \<and>
     (if \<bar>fsub (tag_weight SignalBuy results) (tag_weight SignalSell results)\<bar>
           < fmul (round64 (2 / 10)) (total_weight results)
      then Signal r = SignalHold
        \<and> Confidence r
            = fdiv (fadd (tag_weight SignalBuy results) (tag_weight SignalSell results)) 2
      else Signal r = fst (winner order results) \<and> Confidence r = snd (winner order results))"
proof -
  obtain sw tb ts tc where t: "tally results = (sw, tb, ts, tc)"
    by (cases "tally results") auto
  obtain cs mw where w: "winner order results = (cs, mw)"
    by (cases "winner order results") auto
  from tally_totals[OF t] have tot: "tb = tag_weight SignalBuy results"
    "ts = tag_weight SignalSell results" "tc = total_weight results" by simp_all
  from assms(2) w have cs: "cs = SignalBuy \<or> cs = SignalSell" by simp
  from assms(1) have len: "length results \<noteq> 0" "length results \<noteq> 1" by auto
  show ?thesis
    using cs len unfolding combineResults_def t w tot
    by (auto simp: Let_def Signal_consts_distinct)
qed

lemma tally_scenario:
  "tally
     [\<lparr>Signal = SignalBuy, OrderType = ot1, LimitPrice = lp1, Confidence = round64 (8 / 10)\<rparr>,
      \<lparr>Signal = SignalBuy, OrderType = ot2, LimitPrice = lp2, Confidence = round64 (7 / 10)\<rparr>,
      \<lparr>Signal = SignalSell, OrderType = ot3, LimitPrice = lp3, Confidence = round64 (4 / 10)\<rparr>]
   = ([SignalBuy \<mapsto> 3 / 2, SignalSell \<mapsto> 3602879701896397 / 9007199254740992],
      3 / 2, 3602879701896397 / 9007199254740992, 4278419646001971 / 2251799813685248)"
  by (simp add: tally_def tally_step_def Signal_consts_distinct f64_literals)
    (simp add: f64_eval)

lemma winner_scenario:
  "winner order
     [\<lparr>Signal = SignalBuy, OrderType = ot1, LimitPrice = lp1, Confidence = round64 (8 / 10)\<rparr>,
      \<lparr>Signal = SignalBuy, OrderType = ot2, LimitPrice = lp2, Confidence = round64 (7 / 10)\<rparr>,
      \<lparr>Signal = SignalSell, OrderType = ot3, LimitPrice = lp3, Confidence = round64 (4 / 10)\<rparr>]
   = (SignalBuy, 3555473390029339 / 4503599627370496)"
  if "order = [SignalBuy, SignalSell] \<or> order = [SignalSell, SignalBuy]"
  using that unfolding winner_def tally_scenario
  by (auto simp: normalize_tally_def pick_max_def Signal_consts_distinct f64_eval)

lemma scenario_no_override:
  "\<not> \<bar>fsub (3 / 2) (3602879701896397 / 9007199254740992)\<bar>
       < fmul (3602879701896397 / 18014398509481984) (4278419646001971 / 2251799813685248)"
  by (simp add: f64_eval)

lemma combineResults_scenario:
  "\<exists>r. combineResults order symbol
     [\<lparr>Signal = SignalBuy, OrderType = ot1, LimitPrice = lp1, Confidence = round64 (8 / 10)\<rparr>,
      \<lparr>Signal = SignalBuy, OrderType = ot2, LimitPrice = lp2, Confidence = round64 (7 / 10)\<rparr>,
      \<lparr>Signal = SignalSell, OrderType = ot3, LimitPrice = lp3, Confidence = round64 (4 / 10)\<rparr>] = Inr r
      \<and> Signal r = SignalBuy \<and> Confidence r = 3555473390029339 / 4503599627370496
      \<and> OrderType r = ''limit''"
  if "order = [SignalBuy, SignalSell] \<or> order = [SignalSell, SignalBuy]"
  unfolding combineResults_def tally_scenario winner_scenario[OF that]
  by (simp add: Let_def Signal_consts_distinct f64_literals scenario_no_override)

lemma tally_two:
  "tally [buy_at b, sell_at c]
     = ([SignalBuy \<mapsto> fadd 0 b, SignalSell \<mapsto> fadd 0 c], fadd 0 b, fadd 0 c,
        fadd (fadd 0 b) c)"
  by (simp add: tally_def tally_step_def buy_at_def sell_at_def Signal_consts_distinct)

lemma combineResults_two:
  "combineResults order symbol [buy_at b, sell_at c] =
     (case winner order [buy_at b, sell_at c] of (combinedSignal0, maxWeight0) \<Rightarrow>
        (let override = (\<bar>fsub (fadd 0 b) (fadd 0 c)\<bar> < fmul (round64 (2 / 10)) (fadd (fadd 0 b) c)
                         \<and> (combinedSignal0 = SignalBuy \<or> combinedSignal0 = SignalSell));
             combinedSignal = (if override then SignalHold else combinedSignal0);
             maxWeight = (if override then fdiv (fadd (fadd 0 b) (fadd 0 c)) 2 else maxWeight0);
             useLimit = (combinedSignal = SignalBuy \<and> maxWeight > round64 (7 / 10))
         in Inr \<lparr>Signal = combinedSignal,
                 OrderType = (if useLimit then ''limit'' else ''market''),
                 LimitPrice = None, Confidence = maxWeight\<rparr>))"
  unfolding combineResults_def tally_two
  by (simp add: buy_limit_prices_def buy_at_def sell_at_def Let_def Signal_consts_distinct
      split: prod.splits)

lemma winner_two:
  "winner [SignalBuy, SignalSell] [buy_at b, sell_at c] =
     fold (pick_max (normalize_tally [SignalBuy \<mapsto> fadd 0 b, SignalSell \<mapsto> fadd 0 c]
        (fadd (fadd 0 b) c))) [SignalBuy, SignalSell] ([], 0)"
  by (simp add: winner_def tally_two)

lemma boundary_tenths:
  "combineResults [SignalBuy, SignalSell] ''X''
       [buy_at (round64 (6 / 10)), sell_at (round64 (4 / 10))]
     = Inr \<lparr>Signal = SignalHold, OrderType = ''market'', LimitPrice = None, Confidence = 1 / 2\<rparr>"
  "winner [SignalBuy, SignalSell] [buy_at (round64 (6 / 10)), sell_at (round64 (4 / 10))]
     = (SignalBuy, 5404319552844595 / 9007199254740992)"
proof -
  show w: "winner [SignalBuy, SignalSell] [buy_at (round64 (6 / 10)), sell_at (round64 (4 / 10))]
     = (SignalBuy, 5404319552844595 / 9007199254740992)"
    unfolding winner_two
    by (simp add: f64_literals normalize_tally_def pick_max_def Signal_consts_distinct)
      (simp add: f64_eval)
  show "combineResults [SignalBuy, SignalSell] ''X''
       [buy_at (round64 (6 / 10)), sell_at (round64 (4 / 10))]
     = Inr \<lparr>Signal = SignalHold, OrderType = ''market'', LimitPrice = None, Confidence = 1 / 2\<rparr>"
    unfolding combineResults_two w
    by (simp add: f64_literals Signal_consts_distinct) (simp add: f64_eval)
qed

lemma boundary_ratio:
  "combineResults [SignalBuy, SignalSell] ''X''
       [buy_at (6181520726820345 / 18014398509481984),
        sell_at (2060506908940115 / 9007199254740992)]
     = Inr \<lparr>Signal = SignalHold, OrderType = ''market'', LimitPrice = None,
           Confidence = 321954204521893 / 1125899906842624\<rparr>"
  "winner [SignalBuy, SignalSell]
       [buy_at (6181520726820345 / 18014398509481984),
        sell_at (2060506908940115 / 9007199254740992)]
     = (SignalBuy, 5404319552844595 / 9007199254740992)"
proof -
  show w: "winner [SignalBuy, SignalSell]
       [buy_at (6181520726820345 / 18014398509481984),
        sell_at (2060506908940115 / 9007199254740992)]
     = (SignalBuy, 5404319552844595 / 9007199254740992)"
    unfolding winner_two
    by (simp add: normalize_tally_def pick_max_def Signal_consts_distinct f64_eval)
  show "combineResults [SignalBuy, SignalSell] ''X''
       [buy_at (6181520726820345 / 18014398509481984),
        sell_at (2060506908940115 / 9007199254740992)]
     = Inr \<lparr>Signal = SignalHold, OrderType = ''market'', LimitPrice = None,
           Confidence = 321954204521893 / 1125899906842624\<rparr>"
    unfolding combineResults_two w
    by (simp add: Signal_consts_distinct f64_eval)
qed

text \<open>
  Claim C7 as stated fails at the boundary of the hold override, because the combiner
  computes the test in binary64. For a buy at 0.6 and a sell at 0.4 (the binary64 values
  nearest to them) the weighted winner is buy and \<open>|0.6 - 0.4| < 0.2 \<sqdot> 1.0\<close> is false,
  yet the rounded difference \<open>0.19999999999999996\<close> is below the rounded constant
  \<open>0.2\<close> and the combiner returns hold at 0.5. The same happens on confidences read
  exactly: for the binary64 values \<open>s = 0.22876222127045265\<close> and \<open>b = 1.5 \<sqdot> s\<close> the
  difference \<open>b - s\<close> equals \<open>0.2 \<sqdot> (b + s)\<close>, so the test of the claim is false, and the
  combiner returns hold.
\<close>

theorem combineResults_override_counterexample:
  "combineResults [SignalBuy, SignalSell] ''X''
       [buy_at (round64 (6 / 10)), sell_at (round64 (4 / 10))]
     = Inr \<lparr>Signal = SignalHold, OrderType = ''market'', LimitPrice = None, Confidence = 1 / 2\<rparr>
   \<and> fst (winner [SignalBuy, SignalSell]
          [buy_at (round64 (6 / 10)), sell_at (round64 (4 / 10))]) = SignalBuy
   \<and> \<not> claimed_override [buy_at (6 / 10), sell_at (4 / 10)]
   \<and> combineResults [SignalBuy, SignalSell] ''X''
       [buy_at (6181520726820345 / 18014398509481984),
        sell_at (2060506908940115 / 9007199254740992)]
     = Inr \<lparr>Signal = SignalHold, OrderType = ''market'', LimitPrice = None,
           Confidence = 321954204521893 / 1125899906842624\<rparr>
   \<and> fst (winner [SignalBuy, SignalSell]
          [buy_at (6181520726820345 / 18014398509481984),
           sell_at (2060506908940115 / 9007199254740992)]) = SignalBuy
   \<and> round64 (6181520726820345 / 18014398509481984) = 6181520726820345 / 18014398509481984
   \<and> round64 (2060506908940115 / 9007199254740992) = 2060506908940115 / 9007199254740992
   \<and> \<not> claimed_override
          [buy_at (6181520726820345 / 18014398509481984),
           sell_at (2060506908940115 / 9007199254740992)]"
proof -
  have c: "\<not> claimed_override [buy_at (6 / 10), sell_at (4 / 10)]"
    "\<not> claimed_override
          [buy_at (6181520726820345 / 18014398509481984),
           sell_at (2060506908940115 / 9007199254740992)]"
    by (simp_all add: claimed_override_def buy_confidence_def sell_confidence_def
        all_confidence_def buy_at_def sell_at_def Signal_consts_distinct)
  have r: "round64 (6181520726820345 / 18014398509481984) = 6181520726820345 / 18014398509481984"
    "round64 (2060506908940115 / 9007199254740992) = 2060506908940115 / 9007199254740992"
    by (simp_all add: f64_eval)
  from c r show ?thesis
    by (simp only: boundary_tenths boundary_ratio fst_conv simp_thms)
qed

text \<open>
  Claim C7, amended. The three results buy at 0.8, buy at 0.7 and sell at 0.4 (the binary64
  values nearest to them) combine to buy with the normalised weight \<open>(0.8 + 0.7) / 1.9\<close>
  as binary64 computes it, \<open>0.7894736842105263\<close>, and no hold override, in either order
  in which the two keys of the weight map can be visited. In general, for two or more results
  with confidences in range whose weighted winner is buy or sell, the combined signal is hold
  with confidence \<open>(\<Sigma>_buy + \<Sigma>_sell) / 2\<close> exactly when \<open>|\<Sigma>_buy - \<Sigma>_sell| < 0.2 \<sqdot> \<Sigma>_all\<close>
  holds in binary64 arithmetic: the sums added up in the order of the results, the
  difference, the product with the binary64 constant \<open>0.2\<close>, the sum and its half each
  rounded to nearest. It is the winner with its weight otherwise.
\<close>

theorem combineResults_ensemble:
  "((order = [SignalBuy, SignalSell] \<or> order = [SignalSell, SignalBuy]) \<longrightarrow>
      (\<exists>r. combineResults order symbol
         [\<lparr>Signal = SignalBuy, OrderType = ot1, LimitPrice = lp1, Confidence = round64 (8 / 10)\<rparr>,
          \<lparr>Signal = SignalBuy, OrderType = ot2, LimitPrice = lp2, Confidence = round64 (7 / 10)\<rparr>,
          \<lparr>Signal = SignalSell, OrderType = ot3, LimitPrice = lp3, Confidence = round64 (4 / 10)\<rparr>]
           = Inr r
        \<and> Signal r = SignalBuy
        \<and> Confidence r = fdiv (fadd (round64 (8 / 10)) (round64 (7 / 10)))
             (fadd (fadd (round64 (8 / 10)) (round64 (7 / 10))) (round64 (4 / 10)))
        \<and> Confidence r = 3555473390029339 / 4503599627370496
        \<and> \<bar>Confidence r - 15 / 19\<bar> < 1 / 10 ^ 16
        \<and> Signal r \<noteq> SignalHold))
   \<and> (2 \<le> length results \<and> confidences_in_range results
        \<and> (fst (winner order results) = SignalBuy \<or> fst (winner order results) = SignalSell) \<longrightarrow>
      (\<exists>r. combineResults order symbol results = Inr r \<and>
         (if \<bar>fsub (tag_weight SignalBuy results) (tag_weight SignalSell results)\<bar>
               < fmul (round64 (2 / 10)) (total_weight results)
          then Signal r = SignalHold
            \<and> Confidence r
                = fdiv (fadd (tag_weight SignalBuy results) (tag_weight SignalSell results)) 2
          else Signal r = fst (winner order results) \<and> Signal r \<noteq> SignalHold
            \<and> Confidence r = snd (winner order results))))"
proof (intro conjI impI)
  assume "order = [SignalBuy, SignalSell] \<or> order = [SignalSell, SignalBuy]"
  from combineResults_scenario[OF this, of symbol ot1 lp1 ot2 lp2 ot3 lp3]
  obtain r where r: "combineResults order symbol
         [\<lparr>Signal = SignalBuy, OrderType = ot1, LimitPrice = lp1, Confidence = round64 (8 / 10)\<rparr>,
          \<lparr>Signal = SignalBuy, OrderType = ot2, LimitPrice = lp2, Confidence = round64 (7 / 10)\<rparr>,
          \<lparr>Signal = SignalSell, OrderType = ot3, LimitPrice = lp3, Confidence = round64 (4 / 10)\<rparr>]
           = Inr r" "Signal r = SignalBuy"
      "Confidence r = 3555473390029339 / 4503599627370496"
    by blast
  have v: "fdiv (fadd (round64 (8 / 10)) (round64 (7 / 10)))
             (fadd (fadd (round64 (8 / 10)) (round64 (7 / 10))) (round64 (4 / 10)))
           = 3555473390029339 / 4503599627370496"
    by (simp add: f64_literals) (simp add: f64_eval)
  have near: "\<bar>3555473390029339 / 4503599627370496 - 15 / 19\<bar> < (1 / 10 ^ 16 :: real)"
    by simp
  from r v near show "\<exists>r. combineResults order symbol
         [\<lparr>Signal = SignalBuy, OrderType = ot1, LimitPrice = lp1, Confidence = round64 (8 / 10)\<rparr>,
          \<lparr>Signal = SignalBuy, OrderType = ot2, LimitPrice = lp2, Confidence = round64 (7 / 10)\<rparr>,
          \<lparr>Signal = SignalSell, OrderType = ot3, LimitPrice = lp3, Confidence = round64 (4 / 10)\<rparr>]
           = Inr r
        \<and> Signal r = SignalBuy
        \<and> Confidence r = fdiv (fadd (round64 (8 / 10)) (round64 (7 / 10)))
             (fadd (fadd (round64 (8 / 10)) (round64 (7 / 10))) (round64 (4 / 10)))
        \<and> Confidence r = 3555473390029339 / 4503599627370496
        \<and> \<bar>Confidence r - 15 / 19\<bar> < 1 / 10 ^ 16
        \<and> Signal r \<noteq> SignalHold"
    by (auto simp: Signal_consts_distinct)
next
  assume a: "2 \<le> length results \<and> confidences_in_range results
    \<and> (fst (winner order results) = SignalBuy \<or> fst (winner order results) = SignalSell)"
  then have w: "fst (winner order results) \<noteq> SignalHold"
    by (auto simp: Signal_consts_distinct)
  from a combineResults_override[of results order symbol] w
  show "\<exists>r. combineResults order symbol results = Inr r \<and>
         (if \<bar>fsub (tag_weight SignalBuy results) (tag_weight SignalSell results)\<bar>
               < fmul (round64 (2 / 10)) (total_weight results)
          then Signal r = SignalHold
            \<and> Confidence r
                = fdiv (fadd (tag_weight SignalBuy results) (tag_weight SignalSell results)) 2
          else Signal r = fst (winner order results) \<and> Signal r \<noteq> SignalHold
            \<and> Confidence r = snd (winner order results))"
    by (auto split: if_splits)
qed

lemma combineResults_near_tie:
  "combineResults [SignalBuy, SignalSell] ''X'' [buy_at (1 / 2), sell_at (round64 (45 / 100))]
     = Inr \<lparr>Signal = SignalHold, OrderType = ''market'', LimitPrice = None,
           Confidence = 4278419646001971 / 9007199254740992\<rparr>"
  "winner [SignalBuy, SignalSell] [buy_at (1 / 2), sell_at (round64 (45 / 100))]
     = (SignalBuy, 4740631186705785 / 9007199254740992)"
proof -
  show w: "winner [SignalBuy, SignalSell] [buy_at (1 / 2), sell_at (round64 (45 / 100))]
     = (SignalBuy, 4740631186705785 / 9007199254740992)"
    unfolding winner_two
    by (simp add: normalize_tally_def pick_max_def Signal_consts_distinct f64_eval)
  show "combineResults [SignalBuy, SignalSell] ''X'' [buy_at (1 / 2), sell_at (round64 (45 / 100))]
     = Inr \<lparr>Signal = SignalHold, OrderType = ''market'', LimitPrice = None,
           Confidence = 4278419646001971 / 9007199254740992\<rparr>"
    unfolding combineResults_two w
    by (simp add: Signal_consts_distinct f64_eval)
qed

theorem combineResults_ensemble_witness:
  "(\<exists>r. combineResults [SignalSell, SignalBuy] ''X''
       [\<lparr>Signal = SignalBuy, OrderType = ''limit'', LimitPrice = Some 99,
          Confidence = round64 (8 / 10)\<rparr>,
        \<lparr>Signal = SignalBuy, OrderType = ''market'', LimitPrice = None,
          Confidence = round64 (7 / 10)\<rparr>,
        \<lparr>Signal = SignalSell, OrderType = ''market'', LimitPrice = None,
          Confidence = round64 (4 / 10)\<rparr>]
       = Inr r \<and> Signal r = SignalBuy
       \<and> Confidence r = 3555473390029339 / 4503599627370496)
   \<and> (\<exists>r. combineResults [SignalBuy, SignalSell] ''X''
         [buy_at (1 / 2), sell_at (round64 (45 / 100))] = Inr r
       \<and> Signal r = SignalHold \<and> Confidence r = 4278419646001971 / 9007199254740992)
   \<and> confidences_in_range [buy_at (1 / 2), sell_at (round64 (45 / 100))]"
proof -
  have range: "confidences_in_range [buy_at (1 / 2), sell_at (round64 (45 / 100))]"
    by (simp add: confidences_in_range_def buy_at_def sell_at_def f64_eval)
  have tie: "\<bar>fsub (tag_weight SignalBuy [buy_at (1 / 2), sell_at (round64 (45 / 100))])
              (tag_weight SignalSell [buy_at (1 / 2), sell_at (round64 (45 / 100))])\<bar>
        < fmul (round64 (2 / 10)) (total_weight [buy_at (1 / 2), sell_at (round64 (45 / 100))])"
    by (simp add: tag_weight_def total_weight_def buy_at_def sell_at_def Signal_consts_distinct
        f64_eval)
  note s = combineResults_ensemble[of "[SignalSell, SignalBuy]" "''X''" "''limit''" "Some 99"
      "''market''" None "''market''" None "[]"]
  note g = combineResults_ensemble[of "[SignalBuy, SignalSell]" "''X''" "''limit''" "Some 99"
      "''market''" None "''market''" None "[buy_at (1 / 2), sell_at (round64 (45 / 100))]"]
  from s have 1: "\<exists>r. combineResults [SignalSell, SignalBuy] ''X''
       [\<lparr>Signal = SignalBuy, OrderType = ''limit'', LimitPrice = Some 99,
          Confidence = round64 (8 / 10)\<rparr>,
        \<lparr>Signal = SignalBuy, OrderType = ''market'', LimitPrice = None,
          Confidence = round64 (7 / 10)\<rparr>,
        \<lparr>Signal = SignalSell, OrderType = ''market'', LimitPrice = None,
          Confidence = round64 (4 / 10)\<rparr>]
       = Inr r \<and> Signal r = SignalBuy
       \<and> Confidence r = 3555473390029339 / 4503599627370496"
    by blast
  have w: "fst (winner [SignalBuy, SignalSell] [buy_at (1 / 2), sell_at (round64 (45 / 100))])
      = SignalBuy"
    by (simp only: combineResults_near_tie fst_conv)
  have v: "fdiv (fadd (tag_weight SignalBuy [buy_at (1 / 2), sell_at (round64 (45 / 100))])
              (tag_weight SignalSell [buy_at (1 / 2), sell_at (round64 (45 / 100))])) 2
      = 4278419646001971 / 9007199254740992"
    by (simp add: tag_weight_def buy_at_def sell_at_def Signal_consts_distinct f64_eval)
  from g range tie w have "\<exists>r. combineResults [SignalBuy, SignalSell] ''X''
         [buy_at (1 / 2), sell_at (round64 (45 / 100))] = Inr r
       \<and> Signal r = SignalHold
       \<and> Confidence r
           = fdiv (fadd (tag_weight SignalBuy [buy_at (1 / 2), sell_at (round64 (45 / 100))])
              (tag_weight SignalSell [buy_at (1 / 2), sell_at (round64 (45 / 100))])) 2"
    by simp
  then have 2: "\<exists>r. combineResults [SignalBuy, SignalSell] ''X''
         [buy_at (1 / 2), sell_at (round64 (45 / 100))] = Inr r
       \<and> Signal r = SignalHold \<and> Confidence r = 4278419646001971 / 9007199254740992"
    unfolding v .
  from 1 2 range show ?thesis by blast
qed

subsection \<open>Risk parameters\<close>

lemma validate_param_invalid:
  "param_invalid k v \<Longrightarrow> \<exists>e. validate_param k v = Inl e"
  by (auto simp: param_invalid_def percent_key_def validate_param_def split: dyn.splits if_splits)

lemma validate_params_invalid:
  "(k, v) \<in> set params \<Longrightarrow> param_invalid k v \<Longrightarrow> \<exists>e. validate_params params = Inl e"
proof (induction params)
  case Nil
  then show ?case by simp
next
  case (Cons p ps)
  obtain k' v' where p: "p = (k', v')" by (cases p)
  show ?case
  proof (cases "validate_param k' v'")
    case (Inl e)
    then show ?thesis by (simp add: p)
  next
    case (Inr w)
    with Cons.prems p validate_param_invalid[of k' v'] have "(k, v) \<in> set ps"
      by auto
    from Cons.IH[OF this Cons.prems(2)] show ?thesis
      by (auto simp: p Inr)
  qed
qed

lemma UpdateRiskParameters_error_keeps_state:
  "fst (UpdateRiskParameters a params) \<noteq> None \<Longrightarrow> snd (UpdateRiskParameters a params) = a"
  by (auto simp: UpdateRiskParameters_def split: sum.splits)

text \<open>
  Claim C4. \<^verbatim>\<open>UpdateRiskParameters\<close> is atomic. If the request has an unknown key or an
  invalid value, the call returns an error and the coordinator is exactly what it was;
  whenever the call returns an error the coordinator is unchanged; and the coordinator
  changes only when the call succeeds and no entry of the request is invalid.
\<close>

theorem UpdateRiskParameters_atomic:
  "((\<exists>k v. (k, v) \<in> set params \<and> param_invalid k v) \<longrightarrow>
      (\<exists>e. UpdateRiskParameters a params = (Some e, a)))
   \<and> (fst (UpdateRiskParameters a params) \<noteq> None \<longrightarrow> snd (UpdateRiskParameters a params) = a)
   \<and> (snd (UpdateRiskParameters a params) \<noteq> a \<longrightarrow>
        fst (UpdateRiskParameters a params) = None
        \<and> (\<forall>k v. (k, v) \<in> set params \<longrightarrow> \<not> param_invalid k v))"
proof -
  have 1: "(\<exists>k v. (k, v) \<in> set params \<and> param_invalid k v) \<Longrightarrow>
      (\<exists>e. UpdateRiskParameters a params = (Some e, a))"
    using validate_params_invalid by (fastforce simp: UpdateRiskParameters_def)
  have 2: "fst (UpdateRiskParameters a params) \<noteq> None \<Longrightarrow> snd (UpdateRiskParameters a params) = a"
    by (rule UpdateRiskParameters_error_keeps_state)
  from 1 2 show ?thesis by fastforce
qed

theorem UpdateRiskParameters_atomic_witness:
  "UpdateRiskParameters NewTradingAlgorithm
      [(''stop_loss_percent'', DFloat64 3), (''max_trades_per_day'', DFloat64 (5 / 2))]
     = (Some (Failure ''parameter must be a positive integer''), NewTradingAlgorithm)
   \<and> UpdateRiskParameters NewTradingAlgorithm
      [(''stop_loss_percent'', DFloat64 3), (''leverage'', DFloat64 2)]
     = (Some (Failure ''unknown parameter''), NewTradingAlgorithm)
   \<and> fst (UpdateRiskParameters NewTradingAlgorithm [(''stop_loss_percent'', DInt 3)]) = None
   \<and> riskParameters (snd (UpdateRiskParameters NewTradingAlgorithm [(''stop_loss_percent'', DInt 3)]))
        ''stop_loss_percent'' = Some (DFloat64 3)"
  using UpdateRiskParameters_atomic[of
      "[(''stop_loss_percent'', DFloat64 3), (''max_trades_per_day'', DFloat64 (5 / 2))]"
      NewTradingAlgorithm]
    UpdateRiskParameters_atomic[of
      "[(''stop_loss_percent'', DFloat64 3), (''leverage'', DFloat64 2)]" NewTradingAlgorithm]
  by (simp add: UpdateRiskParameters_def validate_param_def store_params_def)

subsection \<open>The trade gate\<close>

lemma ExecuteTrade_gate_state:
  "ExecuteTrade (gate_state tv pct p) (Some buy_signal) =
     Inr (OrderLogged \<lparr>ord_symbol = ''AAPL'', ord_side = ''buy'',
        ord_qty = calculatePositionSize (fmul tv (fdiv pct 100)) p True, ord_type = ''market'',
        ord_limitPrice = 0\<rparr>)"
  by (simp add: ExecuteTrade_def gate_state_def buy_signal_def maxPosSize_def limit_or_zero_def
      SignalBuy_def Let_def)

lemma size_scenario:
  "calculatePositionSize (fmul 10000 (fdiv 5 100)) 100 True = 5"
  by (simp add: calculatePositionSize_def go_int_def f64_eval)

lemma size_rounded_up:
  "calculatePositionSize (fmul 4538160 (fdiv 5 100)) (round64 (4752 / 100)) True = 4775"
  by (simp add: calculatePositionSize_def go_int_def f64_eval)

lemma size_negative:
  "calculatePositionSize (fmul (- 10050) (fdiv 5 100)) 100 True = - 5"
  by (simp add: calculatePositionSize_def go_int_def f64_eval)

lemma size_seven_cents:
  "calculatePositionSize (fmul 1000 (fdiv 7 100)) (round64 (7 / 100)) True = 999"
  by (simp add: calculatePositionSize_def go_int_def f64_eval)

text \<open>
  Claim C3 as stated fails. The gate divides in binary64 and truncates. With total value
  4538160, 5 percent and the price 47.52 (the binary64 value nearest to it, which is a little
  above) the exact quotient is a little below 4775 and its floor is 4774, but the rounded
  quotient is 4775 and so is the order. With total value 1000, 7 percent and the price 0.07
  the order is for 999 shares, where \<open>floor(70 / 0.07)\<close> is 1000. With a negative total
  value of \<open>-10050\<close> at price 100 the quotient \<open>-5.025\<close> is truncated toward zero to
  \<open>-5\<close>, while its floor is \<open>-6\<close>.
\<close>

theorem ExecuteTrade_buy_qty_counterexample:
  "(\<exists>ord. ExecuteTrade (gate_state 4538160 5 (round64 (4752 / 100))) (Some buy_signal)
         = Inr (OrderLogged ord)
       \<and> ord_qty ord = 4775 \<and> claimed_buy_qty 4538160 5 (round64 (4752 / 100)) = 4774)
   \<and> (\<exists>ord. ExecuteTrade (gate_state 1000 7 (round64 (7 / 100))) (Some buy_signal)
         = Inr (OrderLogged ord)
       \<and> ord_qty ord = 999 \<and> claimed_buy_qty 1000 7 (7 / 100) = 1000)
   \<and> (\<exists>ord. ExecuteTrade (gate_state (- 10050) 5 100) (Some buy_signal) = Inr (OrderLogged ord)
       \<and> ord_qty ord = - 5 \<and> claimed_buy_qty (- 10050) 5 100 = - 6)"
proof -
  have c: "claimed_buy_qty 4538160 5 (round64 (4752 / 100)) = 4774"
    "claimed_buy_qty 1000 7 (7 / 100) = 1000" "claimed_buy_qty (- 10050) 5 100 = - 6"
    by (simp_all add: claimed_buy_qty_def f64_literals)
  show ?thesis
    unfolding ExecuteTrade_gate_state size_rounded_up size_seven_cents size_negative c
    by simp
qed

lemma go_int_floor: "0 \<le> x \<Longrightarrow> go_int x = \<lfloor>x\<rfloor>"
  by (simp add: go_int_def)

lemma go_int_nonneg: "0 \<le> x \<Longrightarrow> 0 \<le> go_int x"
  by (simp add: go_int_def)

lemma buy_quotient_nonneg:
  "0 \<le> tv \<Longrightarrow> 0 \<le> pct \<Longrightarrow> 0 < price \<Longrightarrow> 0 \<le> fdiv (fmul tv (fdiv pct 100)) price"
  unfolding fdiv_def fmul_def
  by (intro round64_nonneg divide_nonneg_pos mult_nonneg_nonneg) simp_all

text \<open>
  Claim C3, amended. For a buy signal on a symbol with known market data: with an existing
  long position the call is a no-op reported as success; otherwise, within the range of
  binary64 and of \<^verbatim>\<open>int\<close>, it logs a buy order whose quantity is the notional
  \<open>totalValue \<sqdot> (p / 100)\<close> divided by the price, the two products and the quotient each
  rounded to binary64, and then truncated toward zero. Here \<open>p\<close> is the stored
  \<^verbatim>\<open>float64\<close> \<^verbatim>\<open>max_position_size_percent\<close> (5 when it is absent or not a
  \<^verbatim>\<open>float64\<close>) and a price \<open>\<le> 0\<close> is replaced by 1. For a positive price and a
  non-negative total value and percentage the quantity is the floor of the rounded quotient
  and is not negative. With total value 10000, 5 percent, price 100 and no position the order
  is a buy of exactly 5 shares.
\<close>

theorem ExecuteTrade_buy:
  assumes "marketData a (sig_Symbol sg) = Some md" and "sig_Signal sg = SignalBuy"
  shows "(held_long a (sig_Symbol sg) \<longrightarrow> ExecuteTrade a (Some sg) = Inr NoAction)
    \<and> (\<not> held_long a (sig_Symbol sg)
         \<and> size_in_range (TotalValue (portfolio a)) (maxPosSize (riskParameters a))
              (if Price md \<le> 0 then 1 else Price md) \<longrightarrow>
         (\<exists>ord. ExecuteTrade a (Some sg) = Inr (OrderLogged ord)
            \<and> ord_side ord = ''buy''
            \<and> ord_qty ord = real_of_int (go_int
                 (fdiv (fmul (TotalValue (portfolio a)) (fdiv (maxPosSize (riskParameters a)) 100))
                    (if Price md \<le> 0 then 1 else Price md)))
            \<and> (0 < Price md \<and> 0 \<le> TotalValue (portfolio a)
                  \<and> 0 \<le> maxPosSize (riskParameters a) \<longrightarrow>
                 ord_qty ord = real_of_int
                   \<lfloor>fdiv (fmul (TotalValue (portfolio a))
                      (fdiv (maxPosSize (riskParameters a)) 100)) (Price md)\<rfloor>
                 \<and> 0 \<le> ord_qty ord)))
    \<and> (\<exists>ord. ExecuteTrade (gate_state 10000 5 100) (Some buy_signal) = Inr (OrderLogged ord)
            \<and> ord_side ord = ''buy'' \<and> ord_qty ord = 5)"
proof (intro conjI impI)
  assume "held_long a (sig_Symbol sg)"
  with assms show "ExecuteTrade a (Some sg) = Inr NoAction"
    by (auto simp: ExecuteTrade_def held_long_def Let_def split: option.splits)
next
  assume "\<not> held_long a (sig_Symbol sg)
         \<and> size_in_range (TotalValue (portfolio a)) (maxPosSize (riskParameters a))
              (if Price md \<le> 0 then 1 else Price md)"
  then have nl: "\<not> held_long a (sig_Symbol sg)" by simp
  let ?n = "fmul (TotalValue (portfolio a)) (fdiv (maxPosSize (riskParameters a)) 100)"
  have fl: "0 < Price md \<and> 0 \<le> TotalValue (portfolio a)
                  \<and> 0 \<le> maxPosSize (riskParameters a) \<Longrightarrow>
    real_of_int (go_int (fdiv ?n (Price md))) = real_of_int \<lfloor>fdiv ?n (Price md)\<rfloor>
    \<and> 0 \<le> real_of_int (go_int (fdiv ?n (Price md)))"
    using buy_quotient_nonneg[of "TotalValue (portfolio a)" "maxPosSize (riskParameters a)"
        "Price md"]
    by (simp add: go_int_floor)
  from assms nl have "ExecuteTrade a (Some sg) =
     Inr (OrderLogged \<lparr>ord_symbol = sig_Symbol sg, ord_side = ''buy'',
        ord_qty = calculatePositionSize ?n (Price md) True, ord_type = sig_OrderType sg,
        ord_limitPrice = limit_or_zero (sig_LimitPrice sg)\<rparr>)"
    by (auto simp: ExecuteTrade_def held_long_def Let_def split: option.splits)
  with fl show "\<exists>ord. ExecuteTrade a (Some sg) = Inr (OrderLogged ord)
            \<and> ord_side ord = ''buy''
            \<and> ord_qty ord = real_of_int (go_int
                 (fdiv ?n (if Price md \<le> 0 then 1 else Price md)))
            \<and> (0 < Price md \<and> 0 \<le> TotalValue (portfolio a)
                  \<and> 0 \<le> maxPosSize (riskParameters a) \<longrightarrow>
                 ord_qty ord = real_of_int \<lfloor>fdiv ?n (Price md)\<rfloor>
                 \<and> 0 \<le> ord_qty ord)"
    by (auto simp: calculatePositionSize_def Let_def)
next
  show "\<exists>ord. ExecuteTrade (gate_state 10000 5 100) (Some buy_signal) = Inr (OrderLogged ord)
            \<and> ord_side ord = ''buy'' \<and> ord_qty ord = 5"
    unfolding ExecuteTrade_gate_state size_scenario by simp
qed

theorem ExecuteTrade_buy_witness:
  "ExecuteTrade (gate_state 10000 5 100) (Some buy_signal)
     = Inr (OrderLogged \<lparr>ord_symbol = ''AAPL'', ord_side = ''buy'', ord_qty = 5,
          ord_type = ''market'', ord_limitPrice = 0\<rparr>)
   \<and> fdiv (fmul 10000 (fdiv 5 100)) 100 = 5
   \<and> size_in_range 10000 5 100
   \<and> \<not> held_long (gate_state 10000 5 100) ''AAPL''"
proof -
  have md: "marketData (gate_state 10000 5 100) (sig_Symbol buy_signal)
      = Some \<lparr>Symbol = ''AAPL'', Price = 100, High24h = 100, Low24h = 100, Volume24h = 0,
          Change24h = 0\<rparr>"
    by (simp add: gate_state_def buy_signal_def)
  have b: "sig_Signal buy_signal = SignalBuy"
    by (simp add: buy_signal_def)
  have nl: "\<not> held_long (gate_state 10000 5 100) ''AAPL''"
    by (simp add: held_long_def gate_state_def)
  have q: "fdiv (fmul 10000 (fdiv 5 100)) 100 = 5"
    by (simp add: f64_eval)
  have r: "size_in_range 10000 5 100"
    by (simp add: size_in_range_def finite64_def int64_range_def f64_eval)
  have st: "TotalValue (portfolio (gate_state 10000 5 100)) = 10000"
    "maxPosSize (riskParameters (gate_state 10000 5 100)) = 5"
    "sig_Symbol buy_signal = ''AAPL''"
    by (simp_all add: gate_state_def maxPosSize_def buy_signal_def)
  from ExecuteTrade_buy[OF md b] nl r st q show ?thesis
    by (simp add: ExecuteTrade_gate_state size_scenario)
qed

subsection \<open>Fractional differentiation weights\<close>












subsection \<open>Configuration\<close>

lemma PurgedCV_test_size_accepts:
  "(fst (PurgedCV_Configure_test_size p config) = None)
     = (\<not> (out_of_range (AdditionalParams config) ''test_size'' (\<lambda>v. 0 < v \<and> v < 1)))"
  by (auto simp: PurgedCV_Configure_test_size_def out_of_range_def Let_def split: option.splits)

lemma PurgedCV_embargo_accepts:
  "(fst (PurgedCV_Configure_embargo p config) = None)
     = (\<not> ((out_of_range (AdditionalParams config) ''embargo_pct'' (\<lambda>v. 0 \<le> v \<and> v \<le> 1 / 2)
        \<or> out_of_range (AdditionalParams config) ''test_size'' (\<lambda>v. 0 < v \<and> v < 1))))"
  unfolding PurgedCV_Configure_embargo_def
  by (cases "AdditionalParams config ''embargo_pct''")
    (auto simp: PurgedCV_test_size_accepts out_of_range_def)

lemma PurgedCV_Configure_accepts:
  "(fst (PurgedCV_Configure p config) = None) = (\<not> PurgedCV_rejects (AdditionalParams config))"
  unfolding PurgedCV_Configure_def PurgedCV_rejects_def Let_def
  by (cases "AdditionalParams config ''num_folds''")
    (auto simp: PurgedCV_embargo_accepts out_of_range_def)

lemma SB_sample_size_accepts:
  "(fst (SB_Configure_sample_size s config) = None)
     = (\<not> (out_of_range (AdditionalParams config) ''sample_size'' (\<lambda>v. 1 \<le> v)))"
  by (auto simp: SB_Configure_sample_size_def out_of_range_def split: option.splits)

lemma SB_use_sequential_accepts:
  "(fst (SB_Configure_use_sequential s config) = None)
     = (\<not> (out_of_range (AdditionalParams config) ''sample_size'' (\<lambda>v. 1 \<le> v)))"
  unfolding SB_Configure_use_sequential_def
  by (cases "AdditionalParams config ''use_sequential''") (simp_all add: SB_sample_size_accepts)

lemma SB_confidence_threshold_accepts:
  "(fst (SB_Configure_confidence_threshold s config) = None)
     = (\<not> ((out_of_range (AdditionalParams config) ''confidence_threshold'' (\<lambda>v. 0 \<le> v \<and> v \<le> 1)
        \<or> out_of_range (AdditionalParams config) ''sample_size'' (\<lambda>v. 1 \<le> v))))"
  unfolding SB_Configure_confidence_threshold_def
  by (cases "AdditionalParams config ''confidence_threshold''")
    (auto simp: SB_use_sequential_accepts out_of_range_def)

lemma SB_Configure_accepts:
  "(fst (SB_Configure s config) = None) = (\<not> SB_rejects (AdditionalParams config))"
  unfolding SB_Configure_def SB_rejects_def Let_def
  by (cases "AdditionalParams config ''lookback_period''")
    (auto simp: SB_confidence_threshold_accepts out_of_range_def)

lemma FD_use_fixed_width_accepts: "fst (FD_Configure_use_fixed_width f config) = None"
  by (simp add: FD_Configure_use_fixed_width_def split: option.splits)

lemma FD_window_size_accepts:
  "(fst (FD_Configure_window_size f config) = None)
     = (\<not> (out_of_range (AdditionalParams config) ''window_size'' (\<lambda>v. 1 \<le> v)))"
  unfolding FD_Configure_window_size_def
  by (cases "AdditionalParams config ''window_size''")
    (auto simp: FD_use_fixed_width_accepts out_of_range_def)

lemma FD_threshold_accepts:
  "(fst (FD_Configure_threshold f config) = None)
     = (\<not> ((out_of_range (AdditionalParams config) ''threshold'' (\<lambda>v. 0 < v)
        \<or> out_of_range (AdditionalParams config) ''window_size'' (\<lambda>v. 1 \<le> v))))"
  unfolding FD_Configure_threshold_def
  by (cases "AdditionalParams config ''threshold''")
    (auto simp: FD_window_size_accepts out_of_range_def)

lemma FD_Configure_accepts:
  "(fst (FD_Configure f config) = None) = (\<not> FD_rejects (AdditionalParams config))"
  unfolding FD_Configure_def FD_rejects_def Let_def
  by (cases "AdditionalParams config ''d''")
    (auto simp: FD_threshold_accepts out_of_range_def)

lemma TB_volatility_lookback_accepts:
  "(fst (TB_Configure_volatility_lookback t config) = None)
     = (\<not> (out_of_range (AdditionalParams config) ''volatility_lookback'' (\<lambda>v. 1 \<le> v)))"
  by (auto simp: TB_Configure_volatility_lookback_def out_of_range_def Let_def split: option.splits)

lemma TB_time_horizon_accepts:
  "(fst (TB_Configure_time_horizon t config) = None)
     = (\<not> ((out_of_range (AdditionalParams config) ''time_horizon'' (\<lambda>v. 1 \<le> v)
        \<or> out_of_range (AdditionalParams config) ''volatility_lookback'' (\<lambda>v. 1 \<le> v))))"
  unfolding TB_Configure_time_horizon_def
  by (cases "AdditionalParams config ''time_horizon''")
    (auto simp: TB_volatility_lookback_accepts out_of_range_def)

lemma TB_stop_loss_accepts:
  "(fst (TB_Configure_stop_loss t config) = None)
     = (\<not> ((out_of_range (AdditionalParams config) ''stop_loss'' (\<lambda>v. 0 < v)
        \<or> out_of_range (AdditionalParams config) ''time_horizon'' (\<lambda>v. 1 \<le> v)
        \<or> out_of_range (AdditionalParams config) ''volatility_lookback'' (\<lambda>v. 1 \<le> v))))"
  unfolding TB_Configure_stop_loss_def
  by (cases "AdditionalParams config ''stop_loss''")
    (auto simp: TB_time_horizon_accepts out_of_range_def)

lemma TB_Configure_accepts:
  "(fst (TB_Configure t config) = None) = (\<not> TB_rejects (AdditionalParams config))"
  unfolding TB_Configure_def TB_rejects_def Let_def
  by (cases "AdditionalParams config ''profit_taking''")
    (auto simp: TB_stop_loss_accepts out_of_range_def)

lemma PS_use_meta_labeling_accepts: "fst (PS_Configure_use_meta_labeling p config) = None"
  by (simp add: PS_Configure_use_meta_labeling_def split: option.splits)

lemma PS_max_drawdown_accepts:
  "(fst (PS_Configure_max_drawdown p config) = None)
     = (\<not> (out_of_range (AdditionalParams config) ''max_drawdown'' (\<lambda>v. 0 < v \<and> v \<le> 1 / 2)))"
  unfolding PS_Configure_max_drawdown_def
  by (cases "AdditionalParams config ''max_drawdown''")
    (auto simp: PS_use_meta_labeling_accepts out_of_range_def)

lemma PS_vol_lookback_accepts:
  "(fst (PS_Configure_vol_lookback p config) = None)
     = (\<not> ((out_of_range (AdditionalParams config) ''vol_lookback'' (\<lambda>v. 1 \<le> v)
        \<or> out_of_range (AdditionalParams config) ''max_drawdown'' (\<lambda>v. 0 < v \<and> v \<le> 1 / 2))))"
  unfolding PS_Configure_vol_lookback_def
  by (cases "AdditionalParams config ''vol_lookback''")
    (auto simp: PS_max_drawdown_accepts out_of_range_def)

lemma PS_use_vol_adjustment_accepts:
  "(fst (PS_Configure_use_vol_adjustment p config) = None)
     = (\<not> ((out_of_range (AdditionalParams config) ''vol_lookback'' (\<lambda>v. 1 \<le> v)
        \<or> out_of_range (AdditionalParams config) ''max_drawdown'' (\<lambda>v. 0 < v \<and> v \<le> 1 / 2))))"
  unfolding PS_Configure_use_vol_adjustment_def
  by (cases "AdditionalParams config ''use_vol_adjustment''") (simp_all add: PS_vol_lookback_accepts)

lemma PS_risk_fraction_accepts:
  "(fst (PS_Configure_risk_fraction p config) = None)
     = (\<not> ((out_of_range (AdditionalParams config) ''risk_fraction'' (\<lambda>v. 0 < v \<and> v \<le> 1)
        \<or> out_of_range (AdditionalParams config) ''vol_lookback'' (\<lambda>v. 1 \<le> v)
        \<or> out_of_range (AdditionalParams config) ''max_drawdown'' (\<lambda>v. 0 < v \<and> v \<le> 1 / 2))))"
  unfolding PS_Configure_risk_fraction_def
  by (cases "AdditionalParams config ''risk_fraction''")
    (auto simp: PS_use_vol_adjustment_accepts out_of_range_def)

lemma PS_Configure_accepts:
  "(fst (PS_Configure p config) = None) = (\<not> PS_rejects (AdditionalParams config))"
  unfolding PS_Configure_def PS_rejects_def Let_def
  by (cases "AdditionalParams config ''max_size''")
    (auto simp: PS_risk_fraction_accepts out_of_range_def)

lemma toggle_feature_features:
  "ml_features (toggle_feature config key ft m) =
     (if family_off (AdditionalParams config) key then remove1 ft (ml_features m)
      else ml_features m)"
  by (simp add: toggle_feature_def family_off_def removeFeature_def split: option.splits)

lemma ML_Configure_accepts:
  "(fst (ML_Configure m config) = None) = (\<not> ML_rejects (AdditionalParams config))"
  unfolding ML_Configure_def ML_rejects_def Let_def
  by (cases "AdditionalParams config ''confidence_threshold''")
    (simp_all add: toggle_feature_features out_of_range_def FeatureTypePrice_def
      FeatureTypeVolume_def FeatureTypeVolatility_def FeatureTypeTechnical_def)

lemma CUSUM_Configure_accepts: "fst (CUSUM_Configure c config) = None"
  by (simp add: CUSUM_Configure_def BaseAlgorithm_Configure_def Let_def)

lemma out_of_range_unknown:
  "k \<noteq> key \<Longrightarrow> out_of_range (params(k \<mapsto> v)) key ok = out_of_range params key ok"
  by (simp add: out_of_range_def)

lemma family_off_unknown:
  "k \<noteq> key \<Longrightarrow> family_off (params(k \<mapsto> v)) key = family_off params key"
  by (simp add: family_off_def)

lemma rejects_unknown:
  assumes "k \<notin> set known_options"
  shows "SB_rejects (params(k \<mapsto> v)) = SB_rejects params"
    and "ML_rejects (params(k \<mapsto> v)) = ML_rejects params"
    and "PurgedCV_rejects (params(k \<mapsto> v)) = PurgedCV_rejects params"
    and "PS_rejects (params(k \<mapsto> v)) = PS_rejects params"
    and "FD_rejects (params(k \<mapsto> v)) = FD_rejects params"
    and "TB_rejects (params(k \<mapsto> v)) = TB_rejects params"
  using assms
  by (simp_all add: known_options_def SB_rejects_def ML_rejects_def PurgedCV_rejects_def
      PS_rejects_def FD_rejects_def TB_rejects_def out_of_range_unknown family_off_unknown)

text \<open>
  Claim C9 as stated fails: an option that no algorithm knows is accepted without an error
  by the CUSUM filter, by \<^verbatim>\<open>BaseAlgorithm.Configure\<close> (HRP, MVO, Entropy Pooling) and by
  Sequential Bootstrap.
\<close>

theorem Configure_unknown_option_counterexample:
  "''no_such_option'' \<notin> set known_options
   \<and> fst (CUSUM_Configure NewCUSUMFilterAlgorithm
        (with_option AlgorithmConfig_zero ''no_such_option'' 1)) = None
   \<and> fst (BaseAlgorithm_Configure AlgorithmConfig_zero
        (with_option AlgorithmConfig_zero ''no_such_option'' 1)) = None
   \<and> fst (SB_Configure SequentialBootstrap_new
        (with_option AlgorithmConfig_zero ''no_such_option'' 1)) = None"
  by (simp add: known_options_def CUSUM_Configure_accepts BaseAlgorithm_Configure_def
      SB_Configure_accepts SB_rejects_def out_of_range_def with_option_def AlgorithmConfig_zero_def)

text \<open>
  Claim C9, amended. \<^verbatim>\<open>BaseAlgorithm.Configure\<close> and the CUSUM filter accept every
  configuration. Sequential Bootstrap, Meta-Labeling, Purged CV, Position Sizing,
  Fractional Differentiation and Triple Barrier return an error exactly when one of their
  own options is present with a value out of its range (Meta-Labeling also when all four
  feature families are switched off); and adding an option that no \<^verbatim>\<open>Configure\<close> reads
  never changes whether the configuration is accepted.
\<close>

theorem Configure_validation:
  "fst (BaseAlgorithm_Configure b config) = None
   \<and> fst (CUSUM_Configure c config) = None
   \<and> (fst (SB_Configure s config) \<noteq> None) = SB_rejects (AdditionalParams config)
   \<and> (fst (ML_Configure m config) \<noteq> None) = ML_rejects (AdditionalParams config)
   \<and> (fst (PurgedCV_Configure pcv config) \<noteq> None) = PurgedCV_rejects (AdditionalParams config)
   \<and> (fst (PS_Configure ps config) \<noteq> None) = PS_rejects (AdditionalParams config)
   \<and> (fst (FD_Configure fd config) \<noteq> None) = FD_rejects (AdditionalParams config)
   \<and> (fst (TB_Configure tb config) \<noteq> None) = TB_rejects (AdditionalParams config)
   \<and> (k \<notin> set known_options \<longrightarrow>
        (fst (SB_Configure s (with_option config k v)) = None) = (fst (SB_Configure s config) = None)
      \<and> (fst (ML_Configure m (with_option config k v)) = None) = (fst (ML_Configure m config) = None)
      \<and> (fst (PurgedCV_Configure pcv (with_option config k v)) = None)
          = (fst (PurgedCV_Configure pcv config) = None)
      \<and> (fst (PS_Configure ps (with_option config k v)) = None) = (fst (PS_Configure ps config) = None)
      \<and> (fst (FD_Configure fd (with_option config k v)) = None) = (fst (FD_Configure fd config) = None)
      \<and> (fst (TB_Configure tb (with_option config k v)) = None) = (fst (TB_Configure tb config) = None))"
  by (simp add: BaseAlgorithm_Configure_def CUSUM_Configure_accepts SB_Configure_accepts
      ML_Configure_accepts PurgedCV_Configure_accepts PS_Configure_accepts FD_Configure_accepts
      TB_Configure_accepts with_option_def rejects_unknown)

theorem Configure_validation_witness:
  "fst (SB_Configure SequentialBootstrap_new (with_option AlgorithmConfig_zero ''sample_size'' 0))
      \<noteq> None
   \<and> fst (SB_Configure SequentialBootstrap_new
        (with_option (with_option AlgorithmConfig_zero ''sample_size'' 10) ''no_such_option'' 1))
      = None
   \<and> fst (PurgedCV_Configure PurgedCV_new (with_option AlgorithmConfig_zero ''num_folds'' 1))
      \<noteq> None"
  using Configure_validation[of AlgorithmConfig_zero
      "with_option AlgorithmConfig_zero ''sample_size'' 0" NewCUSUMFilterAlgorithm
      SequentialBootstrap_new MetaLabeling_new PurgedCV_new PositionSizing_new FractionalDiff_new
      TripleBarrier_new "''no_such_option''" 1]
    Configure_validation[of AlgorithmConfig_zero
      "with_option AlgorithmConfig_zero ''sample_size'' 10" NewCUSUMFilterAlgorithm
      SequentialBootstrap_new MetaLabeling_new PurgedCV_new PositionSizing_new FractionalDiff_new
      TripleBarrier_new "''no_such_option''" 1]
    Configure_validation[of AlgorithmConfig_zero
      "with_option AlgorithmConfig_zero ''num_folds'' 1" NewCUSUMFilterAlgorithm
      SequentialBootstrap_new MetaLabeling_new PurgedCV_new PositionSizing_new FractionalDiff_new
      TripleBarrier_new "''no_such_option''" 1]
  by (simp add: known_options_def SB_rejects_def PurgedCV_rejects_def out_of_range_def
      with_option_def AlgorithmConfig_zero_def)

subsection \<open>Sequential bootstrap under the default configuration\<close>

lemma PS_use_meta_labeling_primary:
  "ps_primaryAlgorithm (snd (PS_Configure_use_meta_labeling p config)) = ps_primaryAlgorithm p"
  by (simp add: PS_Configure_use_meta_labeling_def split: option.splits)

lemma PS_max_drawdown_primary:
  "ps_primaryAlgorithm (snd (PS_Configure_max_drawdown p config)) = ps_primaryAlgorithm p"
  by (simp add: PS_Configure_max_drawdown_def PS_use_meta_labeling_primary split: option.splits)

lemma PS_vol_lookback_primary:
  "ps_primaryAlgorithm (snd (PS_Configure_vol_lookback p config)) = ps_primaryAlgorithm p"
  by (simp add: PS_Configure_vol_lookback_def PS_max_drawdown_primary split: option.splits)

lemma PS_use_vol_adjustment_primary:
  "ps_primaryAlgorithm (snd (PS_Configure_use_vol_adjustment p config)) = ps_primaryAlgorithm p"
  by (simp add: PS_Configure_use_vol_adjustment_def PS_vol_lookback_primary split: option.splits)

lemma PS_risk_fraction_primary:
  "ps_primaryAlgorithm (snd (PS_Configure_risk_fraction p config)) = ps_primaryAlgorithm p"
  by (simp add: PS_Configure_risk_fraction_def PS_use_vol_adjustment_primary split: option.splits)

lemma PS_Configure_primary:
  "ps_primaryAlgorithm (snd (PS_Configure p0 config)) = AlgorithmTypeSequentialBootstrap"
  by (simp add: PS_Configure_def PS_risk_fraction_primary Let_def split: option.splits)

lemma toggle_feature_primary:
  "primaryAlgorithm (toggle_feature config key ft m) = primaryAlgorithm m"
  by (simp add: toggle_feature_def removeFeature_def split: option.splits)

lemma ML_Configure_primary:
  "primaryAlgorithm (snd (ML_Configure m0 config)) = AlgorithmTypeSequentialBootstrap"
  by (simp add: ML_Configure_def toggle_feature_primary Let_def split: option.splits)

lemma SB_Configure_default:
  "SB_Configure SequentialBootstrap_new AlgorithmConfig_zero =
     (None, \<lparr>sb_config = AlgorithmConfig_zero, lookbackPeriod = 20, confidenceThreshold = 65 / 100,
             useSequential = True, sampleSize = 50, lastSamples = []\<rparr>)"
  by (simp add: SB_Configure_def SB_Configure_confidence_threshold_def
      SB_Configure_use_sequential_def SB_Configure_sample_size_def SequentialBootstrap_new_def
      AlgorithmConfig_zero_def)

lemma Dims_getIndMatrix:
  "getIndMatrix barIx t1 = Inr indM \<Longrightarrow> snd (Dims indM) = length t1"
  by (cases barIx) (auto simp: getIndMatrix_def Dims_def split: if_splits)

lemma history_window_length:
  "\<not> int (length historicalData) < lookbackPeriod s \<Longrightarrow> \<not> lookbackPeriod s < 0 \<Longrightarrow>
   int (length (history_window s historicalData)) = lookbackPeriod s"
  by (auto simp: history_window_def)

lemma SB_Process_oversampled:
  assumes "useSequential s" and "lookbackPeriod s < sampleSize s"
  shows "\<exists>e. SB_Process ch s symbol currentData historicalData = Inl e"
proof (cases "int (length historicalData) < lookbackPeriod s \<or> lookbackPeriod s < 0")
  case True
  then show ?thesis by (auto simp: SB_Process_def)
next
  case False
  let ?hist = "history_window s historicalData"
  have len: "int (length ?hist) = lookbackPeriod s"
    using False by (simp add: history_window_length)
  show ?thesis
  proof (cases "getIndMatrix (map int [0..<length ?hist]) (map (\<lambda>i. real (i + 1)) [0..<length ?hist])")
    case (Inl e)
    then show ?thesis using False
      by (simp add: SB_Process_def Let_def)
  next
    case (Inr indM)
    from Dims_getIndMatrix[OF Inr] have c: "snd (Dims indM) = length ?hist" by simp
    from Inr have ne: "length ?hist \<noteq> 0" by (auto simp: getIndMatrix_def split: if_splits)
    have "seqBootstrap ch indM (sampleSize s)
        = Inl (Failure ''sample length cannot exceed number of columns'')"
      using assms(2) len c ne by (auto simp: seqBootstrap_def Let_def)
    then show ?thesis using False Inr assms(1)
      by (simp add: SB_Process_def Let_def draw_samples_def)
  qed
qed

lemma SB_Process_default_error:
  assumes "lookbackPeriod s = 20" and "sampleSize s = 50" and "useSequential s"
    and "20 \<le> length historicalData"
  shows "SB_Process ch s symbol currentData historicalData
     = Inl (Failure ''sequential bootstrap failed: sample length cannot exceed number of columns'')"
proof -
  let ?hist = "history_window s historicalData"
  have pre: "\<not> int (length historicalData) < lookbackPeriod s" "\<not> lookbackPeriod s < 0"
    using assms by simp_all
  have len: "length ?hist = 20"
    using history_window_length[OF pre] assms(1) by simp
  obtain indM where ind: "getIndMatrix (map int [0..<length ?hist])
      (map (\<lambda>i. real (i + 1)) [0..<length ?hist]) = Inr indM"
    using len by (auto simp: getIndMatrix_def)
  from Dims_getIndMatrix[OF ind] have c: "snd (Dims indM) = 20" using len by simp
  have "seqBootstrap ch indM (sampleSize s)
        = Inl (Failure ''sample length cannot exceed number of columns'')"
    using assms(2) c by (auto simp: seqBootstrap_def Let_def)
  then have "draw_samples ch s indM
        = Inl (Failure ''sequential bootstrap failed: sample length cannot exceed number of columns'')"
    using assms(3) by (simp add: draw_samples_def wrap_error_def)
  with pre ind show ?thesis
    by (simp add: SB_Process_def Let_def)
qed

lemma primary_stage_SB_fails:
  "\<exists>e. primary_stage ch other AlgorithmTypeSequentialBootstrap symbol currentData historicalData = Inl e"
proof -
  let ?s = "\<lparr>sb_config = AlgorithmConfig_zero, lookbackPeriod = 20, confidenceThreshold = 65 / 100,
             useSequential = True, sampleSize = 50, lastSamples = []\<rparr>"
  obtain e where "SB_Process ch ?s symbol currentData historicalData = Inl e"
    using SB_Process_oversampled[of ?s ch symbol currentData historicalData] by auto
  then show ?thesis
    by (simp add: primary_stage_def SB_Configure_default registered_def)
qed

lemma ML_Process_fails:
  "primaryAlgorithm m = AlgorithmTypeSequentialBootstrap \<Longrightarrow>
   \<exists>e. ML_Process ch other m symbol currentData historicalData = Inl e"
  using primary_stage_SB_fails[of ch other symbol currentData historicalData]
  by (auto simp: ML_Process_def)

lemma PS_Process_fails:
  "ps_primaryAlgorithm p = AlgorithmTypeSequentialBootstrap \<Longrightarrow>
   \<exists>e. PS_Process ch1 ch2 other p symbol currentData historicalData = Inl e"
  using primary_stage_SB_fails[of ch1 other symbol currentData historicalData]
  by (auto simp: PS_Process_def)



lemma SB_default_matrix:
  assumes "lookbackPeriod s = 20" and "20 \<le> length historicalData"
  shows "\<exists>indM. getIndMatrix (map int [0..<length (history_window s historicalData)])
             (map (\<lambda>i. real (i + 1)) [0..<length (history_window s historicalData)]) = Inr indM
           \<and> snd (Dims indM) = 20
           \<and> seqBootstrap ch indM 50
                = Inl (Failure ''sample length cannot exceed number of columns'')"
proof -
  let ?hist = "history_window s historicalData"
  have pre: "\<not> int (length historicalData) < lookbackPeriod s" "\<not> lookbackPeriod s < 0"
    using assms by simp_all
  have len: "length ?hist = 20"
    using history_window_length[OF pre] assms(1) by simp
  obtain indM where ind: "getIndMatrix (map int [0..<length ?hist])
      (map (\<lambda>i. real (i + 1)) [0..<length ?hist]) = Inr indM"
    using len by (auto simp: getIndMatrix_def)
  from Dims_getIndMatrix[OF ind] have c: "snd (Dims indM) = 20" using len by simp
  then have "seqBootstrap ch indM 50
        = Inl (Failure ''sample length cannot exceed number of columns'')"
    by (auto simp: seqBootstrap_def Let_def)
  with ind c show ?thesis by blast
qed

lemma PS_Configure_default_lookback:
  "volLookback (snd (PS_Configure p0 AlgorithmConfig_zero)) = 20"
  by (simp add: PS_Configure_def PS_Configure_risk_fraction_def PS_Configure_use_vol_adjustment_def
      PS_Configure_vol_lookback_def PS_Configure_max_drawdown_def PS_Configure_use_meta_labeling_def
      AlgorithmConfig_zero_def)

lemma primary_stage_SB_error:
  assumes "20 \<le> length historicalData"
  shows "primary_stage ch other AlgorithmTypeSequentialBootstrap symbol currentData historicalData
     = Inl (Failure ''error processing primary algorithm: sequential bootstrap failed: sample length cannot exceed number of columns'')"
proof -
  let ?s = "\<lparr>sb_config = AlgorithmConfig_zero, lookbackPeriod = 20, confidenceThreshold = 65 / 100,
             useSequential = True, sampleSize = 50, lastSamples = []\<rparr>"
  have "SB_Process ch ?s symbol currentData historicalData
     = Inl (Failure ''sequential bootstrap failed: sample length cannot exceed number of columns'')"
    using assms by (intro SB_Process_default_error) simp_all
  then show ?thesis
    by (simp add: primary_stage_def SB_Configure_default registered_def wrap_error_def)
qed

text \<open>
  Claim C2. With lookback period 20, sample size 50 and the sequential bootstrap enabled,
  which is what \<^verbatim>\<open>Configure\<close> sets for the empty configuration, \<^verbatim>\<open>Process\<close> of
  Sequential Bootstrap fails on every history of at least 20 points: the indicator matrix
  has 20 columns and \<^verbatim>\<open>seqBootstrap\<close> rejects the sample length 50. Meta-Labeling and
  Position Sizing, after \<^verbatim>\<open>Configure\<close> with any configuration, run this primary algorithm
  with the empty configuration; their \<^verbatim>\<open>Process\<close> returns an error on every input, for
  every source of chance, and so never a signal. On a history of at least 20 points the
  error of Meta-Labeling, and of Position Sizing under its default configuration, is the
  error of the primary algorithm.
\<close>

theorem default_sequential_bootstrap_fails:
  "(lookbackPeriod s = 20 \<and> sampleSize s = 50 \<and> useSequential s \<and> 20 \<le> length historicalData \<longrightarrow>
      (\<exists>indM. getIndMatrix (map int [0..<length (history_window s historicalData)])
             (map (\<lambda>i. real (i + 1)) [0..<length (history_window s historicalData)]) = Inr indM
           \<and> snd (Dims indM) = 20
           \<and> seqBootstrap ch indM (sampleSize s)
                = Inl (Failure ''sample length cannot exceed number of columns''))
      \<and> SB_Process ch s symbol currentData historicalData
        = Inl (Failure ''sequential bootstrap failed: sample length cannot exceed number of columns''))
   \<and> (\<exists>s0. SB_Configure SequentialBootstrap_new AlgorithmConfig_zero = (None, s0)
         \<and> lookbackPeriod s0 = 20 \<and> sampleSize s0 = 50 \<and> useSequential s0)
   \<and> (\<exists>e. ML_Process ch other (snd (ML_Configure m0 config)) symbol currentData historicalData
         = Inl e)
   \<and> (\<exists>e. PS_Process ch ch2 other (snd (PS_Configure p0 config)) symbol currentData
         historicalData = Inl e)
   \<and> (20 \<le> length historicalData \<longrightarrow>
        ML_Process ch other (snd (ML_Configure m0 config)) symbol currentData historicalData
          = Inl (Failure ''error processing primary algorithm: sequential bootstrap failed: sample length cannot exceed number of columns'')
        \<and> PS_Process ch ch2 other (snd (PS_Configure p0 AlgorithmConfig_zero)) symbol currentData
            historicalData
          = Inl (Failure ''error processing primary algorithm: sequential bootstrap failed: sample length cannot exceed number of columns''))"
proof (intro conjI impI)
  assume a: "lookbackPeriod s = 20 \<and> sampleSize s = 50 \<and> useSequential s \<and> 20 \<le> length historicalData"
  then show "\<exists>indM. getIndMatrix (map int [0..<length (history_window s historicalData)])
             (map (\<lambda>i. real (i + 1)) [0..<length (history_window s historicalData)]) = Inr indM
           \<and> snd (Dims indM) = 20
           \<and> seqBootstrap ch indM (sampleSize s)
                = Inl (Failure ''sample length cannot exceed number of columns'')"
    using SB_default_matrix[of s historicalData ch] by simp
  from a show "SB_Process ch s symbol currentData historicalData
        = Inl (Failure ''sequential bootstrap failed: sample length cannot exceed number of columns'')"
    using SB_Process_default_error by blast
next
  show "\<exists>s0. SB_Configure SequentialBootstrap_new AlgorithmConfig_zero = (None, s0)
         \<and> lookbackPeriod s0 = 20 \<and> sampleSize s0 = 50 \<and> useSequential s0"
    by (simp add: SB_Configure_default)
next
  show "\<exists>e. ML_Process ch other (snd (ML_Configure m0 config)) symbol currentData historicalData
         = Inl e"
    by (rule ML_Process_fails) (rule ML_Configure_primary)
next
  show "\<exists>e. PS_Process ch ch2 other (snd (PS_Configure p0 config)) symbol currentData
         historicalData = Inl e"
    by (rule PS_Process_fails) (rule PS_Configure_primary)
next
  assume len: "20 \<le> length historicalData"
  from primary_stage_SB_error[OF len] len
  show "ML_Process ch other (snd (ML_Configure m0 config)) symbol currentData historicalData
          = Inl (Failure ''error processing primary algorithm: sequential bootstrap failed: sample length cannot exceed number of columns'')"
    by (simp add: ML_Process_def ML_Configure_primary)
  from primary_stage_SB_error[OF len] len
  show "PS_Process ch ch2 other (snd (PS_Configure p0 AlgorithmConfig_zero)) symbol currentData
            historicalData
          = Inl (Failure ''error processing primary algorithm: sequential bootstrap failed: sample length cannot exceed number of columns'')"
    by (simp add: PS_Process_def PS_Configure_primary PS_Configure_default_lookback)
qed

theorem default_sequential_bootstrap_fails_witness:
  "SB_Process chance_zero (snd (SB_Configure SequentialBootstrap_new AlgorithmConfig_zero)) ''X''
       None (replicate 20 (bar 100))
     = Inl (Failure ''sequential bootstrap failed: sample length cannot exceed number of columns'')
   \<and> ML_Process chance_zero no_primary (snd (ML_Configure MetaLabeling_new AlgorithmConfig_zero))
       ''X'' None (replicate 20 (bar 100))
     = Inl (Failure ''error processing primary algorithm: sequential bootstrap failed: sample length cannot exceed number of columns'')
   \<and> PS_Process chance_zero chance_zero no_primary
       (snd (PS_Configure PositionSizing_new AlgorithmConfig_zero)) ''X'' None
       (replicate 20 (bar 100))
     = Inl (Failure ''error processing primary algorithm: sequential bootstrap failed: sample length cannot exceed number of columns'')"
  using default_sequential_bootstrap_fails[of
      "snd (SB_Configure SequentialBootstrap_new AlgorithmConfig_zero)" "replicate 20 (bar 100)"
      chance_zero "''X''" None no_primary MetaLabeling_new AlgorithmConfig_zero chance_zero
      PositionSizing_new]
  by (simp add: SB_Configure_default)

subsection \<open>The tags of Sequential Bootstrap\<close>

lemma fold_tally_step_weights:
  "fst (fold tally_step rs (sw, tb, ts, tc)) k =
     (if list_ex (\<lambda>r. Signal r = k) rs
      then Some (foldl fadd (case sw k of None \<Rightarrow> 0 | Some w \<Rightarrow> w)
                   (map Confidence (filter (\<lambda>r. Signal r = k) rs)))
      else sw k)"
proof (induction rs arbitrary: sw tb ts tc)
  case Nil
  then show ?case by simp
next
  case (Cons r rs)
  obtain sw1 tb1 ts1 tc1 where step: "tally_step r (sw, tb, ts, tc) = (sw1, tb1, ts1, tc1)"
    by (cases "tally_step r (sw, tb, ts, tc)") auto
  then have sw1: "sw1 = sw(Signal r \<mapsto>
      fadd (case sw (Signal r) of None \<Rightarrow> 0 | Some w \<Rightarrow> w) (Confidence r))"
    by (simp add: tally_step_def)
  have "fst (fold tally_step (r # rs) (sw, tb, ts, tc)) k = fst (fold tally_step rs (sw1, tb1, ts1, tc1)) k"
    using step by simp
  also have "\<dots> = (if list_ex (\<lambda>r. Signal r = k) rs
      then Some (foldl fadd (case sw1 k of None \<Rightarrow> 0 | Some w \<Rightarrow> w)
                   (map Confidence (filter (\<lambda>r. Signal r = k) rs)))
      else sw1 k)"
    by (rule Cons.IH)
  also have "\<dots> = (if list_ex (\<lambda>r. Signal r = k) (r # rs)
      then Some (foldl fadd (case sw k of None \<Rightarrow> 0 | Some w \<Rightarrow> w)
                   (map Confidence (filter (\<lambda>r. Signal r = k) (r # rs))))
      else sw k)"
    by (auto simp: sw1 list_ex_iff filter_empty_conv)
  finally show ?case .
qed

lemma signalWeights_of_eq:
  "signalWeights_of rs k =
     (if list_ex (\<lambda>r. Signal r = k) rs then Some (tag_weight k rs) else None)"
  unfolding signalWeights_of_def tally_def tag_weight_def
  using fold_tally_step_weights[of rs Map.empty 0 0 0 k] by simp

lemma totalBuyWeight_of_eq: "totalBuyWeight_of rs = tag_weight SignalBuy rs"
  using tally_totals[of rs] by (cases "tally rs") (auto simp: totalBuyWeight_of_def)

lemma totalSellWeight_of_eq: "totalSellWeight_of rs = tag_weight SignalSell rs"
  using tally_totals[of rs] by (cases "tally rs") (auto simp: totalSellWeight_of_def)

lemma SB_decide_tag:
  "Signal (SB_decide s u d) = ''BUY'' \<or> Signal (SB_decide s u d) = ''SELL''
   \<or> Signal (SB_decide s u d) = ''HOLD''"
  by (simp add: SB_decide_def Let_def)

lemma SB_Process_tag:
  assumes "SB_Process ch s symbol currentData historicalData = Inr r"
  shows "Signal r = ''BUY'' \<or> Signal r = ''SELL'' \<or> Signal r = ''HOLD''"
proof -
  from assms obtain u d where "r = SB_decide s u d"
    by (auto simp: SB_Process_def Let_def split: if_splits sum.splits)
  then show ?thesis using SB_decide_tag by simp
qed

text \<open>
  Claim C10. Every result that \<^verbatim>\<open>Process\<close> of Sequential Bootstrap returns without error
  carries the tag \<^verbatim>\<open>BUY\<close>, \<^verbatim>\<open>SELL\<close> or \<^verbatim>\<open>HOLD\<close>, never \<^verbatim>\<open>buy\<close>, \<^verbatim>\<open>sell\<close> or
  \<^verbatim>\<open>hold\<close>. In the combiner, such a result anywhere among the results leaves the buy and
  sell totals of the hold-override test and the weights under \<^verbatim>\<open>buy\<close>, \<^verbatim>\<open>sell\<close> and
  \<^verbatim>\<open>hold\<close> as they are without it; its confidence is added under its own tag: to the
  weight that the results before it have left there, and the confidences of the later results
  with this tag are added after it. The pass-through check of Meta-Labeling for a primary
  \<^verbatim>\<open>hold\<close> does not fire on it.
\<close>

theorem SB_result_tag_upper_case:
  assumes "SB_Process ch s symbol currentData historicalData = Inr r"
  shows "(Signal r = ''BUY'' \<or> Signal r = ''SELL'' \<or> Signal r = ''HOLD'')
     \<and> Signal r \<noteq> ''buy'' \<and> Signal r \<noteq> ''sell'' \<and> Signal r \<noteq> ''hold''
     \<and> totalBuyWeight_of (before @ r # after) = totalBuyWeight_of (before @ after)
     \<and> totalSellWeight_of (before @ r # after) = totalSellWeight_of (before @ after)
     \<and> signalWeights_of (before @ r # after) SignalBuy = signalWeights_of (before @ after) SignalBuy
     \<and> signalWeights_of (before @ r # after) SignalSell = signalWeights_of (before @ after) SignalSell
     \<and> signalWeights_of (before @ r # after) SignalHold = signalWeights_of (before @ after) SignalHold
     \<and> signalWeights_of (before @ r # after) (Signal r)
         = Some (foldl fadd (fadd (tag_weight (Signal r) before) (Confidence r))
                   (map Confidence (filter (\<lambda>x. Signal x = Signal r) after)))
     \<and> ML_after_primary m r currentData historicalData
         = ML_meta_stage m r currentData historicalData"
proof -
  from SB_Process_tag[OF assms] have tag: "Signal r = ''BUY'' \<or> Signal r = ''SELL'' \<or> Signal r = ''HOLD''" .
  then have low: "Signal r \<noteq> ''buy''" "Signal r \<noteq> ''sell''" "Signal r \<noteq> ''hold''"
    by auto
  then have ne: "Signal r \<noteq> SignalBuy" "Signal r \<noteq> SignalSell" "Signal r \<noteq> SignalHold"
    by (simp_all add: SignalBuy_def SignalSell_def SignalHold_def)
  have b: "totalBuyWeight_of (before @ r # after) = totalBuyWeight_of (before @ after)"
    using ne by (simp add: totalBuyWeight_of_eq tag_weight_def)
  have sl: "totalSellWeight_of (before @ r # after) = totalSellWeight_of (before @ after)"
    using ne by (simp add: totalSellWeight_of_eq tag_weight_def)
  have other: "\<And>k. k \<noteq> Signal r \<Longrightarrow>
      signalWeights_of (before @ r # after) k = signalWeights_of (before @ after) k"
    by (auto simp: signalWeights_of_eq tag_weight_def list_ex_iff)
  have own: "signalWeights_of (before @ r # after) (Signal r)
         = Some (foldl fadd (fadd (tag_weight (Signal r) before) (Confidence r))
                   (map Confidence (filter (\<lambda>x. Signal x = Signal r) after)))"
    by (simp add: signalWeights_of_eq tag_weight_def list_ex_iff)
  have ml: "ML_after_primary m r currentData historicalData
         = ML_meta_stage m r currentData historicalData"
    using low by (simp add: ML_after_primary_def)
  from tag low b sl other[of SignalBuy] other[of SignalSell] other[of SignalHold] ne own ml
  show ?thesis by (simp del: append.simps)
qed

lemma SB_small_run:
  "SB_Process chance_zero sb_small ''X'' None [bar 1, bar 2, bar 3]
     = Inr \<lparr>Signal = ''BUY'', OrderType = ''MARKET'', LimitPrice = None, Confidence = 1\<rparr>"
  by code_simp

theorem SB_result_tag_upper_case_witness:
  "SB_Process chance_zero sb_small ''X'' None [bar 1, bar 2, bar 3]
     = Inr \<lparr>Signal = ''BUY'', OrderType = ''MARKET'', LimitPrice = None, Confidence = 1\<rparr>
   \<and> totalBuyWeight_of
        [buy_at (1 / 2),
         \<lparr>Signal = ''BUY'', OrderType = ''MARKET'', LimitPrice = None, Confidence = 1\<rparr>] = 1 / 2
   \<and> signalWeights_of
        [buy_at (1 / 2),
         \<lparr>Signal = ''BUY'', OrderType = ''MARKET'', LimitPrice = None, Confidence = 1\<rparr>] ''BUY''
       = Some 1"
proof -
  note t = SB_result_tag_upper_case[OF SB_small_run, of "[buy_at (1 / 2)]" "[]" MetaLabeling_new]
  have b: "totalBuyWeight_of [buy_at (1 / 2)] = 1 / 2"
    by (simp add: totalBuyWeight_of_eq tag_weight_def buy_at_def f64_eval)
  have w: "tag_weight ''BUY'' [buy_at (1 / 2)] = 0"
    by (simp add: tag_weight_def buy_at_def SignalBuy_def)
  have one: "fadd 0 1 = 1"
    by (simp add: f64_eval)
  from t b w one show ?thesis
    by (simp add: SB_small_run)
qed


subsection \<open>Purged k-fold\<close>

lemma make_fold_disjoint:
  "eventTimes p = [] \<Longrightarrow>
   set (TrainIndices (make_fold p testIdx)) \<inter> set (TestIndices (make_fold p testIdx)) = {}"
  by (auto simp: make_fold_def Let_def)

lemma PurgedKFold_train_test_disjoint:
  assumes "PurgedKFold samples k 0 = Inr folds" and "f \<in> set folds"
  shows "set (TrainIndices f) \<inter> set (TestIndices f) = {}"
  using assms
  by (auto simp: PurgedKFold_def purgedKFold_def Let_def make_fold_def
      split: if_splits sum.splits)

text \<open>
  Claim C5. For \<open>n \<ge> k\<close>, \<^verbatim>\<open>PurgedKFold\<close> over \<open>n\<close> samples with \<open>k\<close> folds and no embargo puts
  every index in exactly one test set. The code does not: for 5 samples and 2 folds each
  shard has \<open>ceil(5 / 2) = 3\<close> indices and the second shard wraps around the end of the range,
  so the test sets are \<open>0, 1, 2\<close> and \<open>0, 3, 4\<close> and index 0 is tested twice. The train and
  test indices of each fold are disjoint.
\<close>

theorem PurgedKFold_index_tested_twice:
  "\<exists>f0 f1. PurgedKFold (hourly 5) 2 0 = Inr [f0, f1]
     \<and> TestIndices f0 = [0, 1, 2] \<and> TestIndices f1 = [0, 3, 4]
     \<and> TrainIndices f0 = [3, 4] \<and> TrainIndices f1 = [1, 2]
     \<and> 0 \<in> set (TestIndices f0) \<inter> set (TestIndices f1)"
proof -
  have "case PurgedKFold (hourly 5) 2 0 of
     Inr [f0, f1] \<Rightarrow> TestIndices f0 = [0, 1, 2] \<and> TestIndices f1 = [0, 3, 4]
       \<and> TrainIndices f0 = [3, 4] \<and> TrainIndices f1 = [1, 2]
   | _ \<Rightarrow> False"
    by code_simp
  then show ?thesis
    by (auto split: sum.splits list.splits)
qed

end
